theory Spec2Isabelle
  imports Complex_Main
begin

section \<open>Python values, dictionaries and exceptions\<close>

text \<open>
  The command-line script \<^verbatim>\<open>seisflows/scripts/seisflows.py\<close> works on the
  values a YAML loader produces. A Python \<^verbatim>\<open>dict\<close> keeps its insertion order and
  has unique keys, so it is an association list; the theorems about dictionaries
  assume the keys distinct.

  A \<^verbatim>\<open>str\<close> is held as the bytes of its UTF-8 encoding. Equality, emptiness,
  concatenation and every test the script makes on single characters (the separator,
  the tilde, the dot and the pattern characters, all of them ASCII) read the same on
  the encoding as on the characters; the one operation that does not is
  \<^verbatim>\<open>str.capitalize\<close>, treated below. A \<^verbatim>\<open>bytes\<close> object, which is what a YAML
  scalar tagged \<^verbatim>\<open>!!binary\<close> loads as, is the list of its bytes; a
  \<^verbatim>\<open>bytearray\<close> behaves in the script as \<^verbatim>\<open>bytes\<close> does.
\<close>

datatype pyval =
    PNone
  | PBool bool
  | PInt int
  | PFloat real
  | PStr string
  | PBytes string
  | PList "pyval list"
  | PDict "(string \<times> pyval) list"

type_synonym pydict = "(string \<times> pyval) list"

text \<open>An instance held in \<^verbatim>\<open>sys.modules\<close>: the \<^verbatim>\<open>Dict\<close> wrappers that
  \<^verbatim>\<open>setup\<close> registers, or the instance of a role. An instance of a role carries
  the name of its state and whether its own \<^verbatim>\<open>check()\<close> passes.\<close>

datatype pyobj =
    ParObj pydict
  | PathObj "(string \<times> string) list"
  | Instance string bool

text \<open>The exceptions. \<^verbatim>\<open>Unmodelled\<close> is not one of them: it marks a call of a library
  function on an argument for which this development does not say what the function
  returns.\<close>

datatype error =
    KeyError string
  | AttributeError
  | TypeError
  | RuntimeError
  | EOFError
  | FileNotFoundError string
  | NotADirectoryError string
  | FileExistsError string
  | SystemExit "int option"
  | ConfigError string
  | CheckpointMissing string
  | CheckpointCorrupt string
  | ModuleValidationError string
  | Unmodelled string

text \<open>Truth value of a Python object, as \<^verbatim>\<open>not item\<close> reads it.\<close>

fun truthy :: "pyval \<Rightarrow> bool" where
  "truthy PNone = False"
| "truthy (PBool b) = b"
| "truthy (PInt i) = (i \<noteq> 0)"
| "truthy (PFloat r) = (r \<noteq> 0)"
| "truthy (PStr s) = (s \<noteq> [])"
| "truthy (PBytes b) = (b \<noteq> [])"
| "truthy (PList xs) = (xs \<noteq> [])"
| "truthy (PDict d) = (d \<noteq> [])"

text \<open>\<^verbatim>\<open>isinstance(item, (type(None), str))\<close>.\<close>

fun isinstance_none_str :: "pyval \<Rightarrow> bool" where
  "isinstance_none_str PNone = True"
| "isinstance_none_str (PStr s) = True"
| "isinstance_none_str v = False"

text \<open>\<^verbatim>\<open>del d[key]\<close> raises \<^verbatim>\<open>KeyError\<close> on an absent key.\<close>

fun dict_delitem :: "string \<Rightarrow> (string \<times> 'v) list \<Rightarrow> error + (string \<times> 'v) list" where
  "dict_delitem k [] = Inl (KeyError k)"
| "dict_delitem k ((k', v) # d) =
     (if k' = k then Inr d
      else (case dict_delitem k d of Inl e \<Rightarrow> Inl e | Inr d' \<Rightarrow> Inr ((k', v) # d')))"

text \<open>\<^verbatim>\<open>d[key] = value\<close>: a present key keeps its place, a new key goes last.\<close>

fun dict_setitem :: "string \<Rightarrow> 'v \<Rightarrow> (string \<times> 'v) list \<Rightarrow> (string \<times> 'v) list" where
  "dict_setitem k v [] = [(k, v)]"
| "dict_setitem k v ((k', v') # d) =
     (if k' = k then (k, v) # d else (k', v') # dict_setitem k v d)"

text \<open>\<^verbatim>\<open>d[key]\<close> raises \<^verbatim>\<open>KeyError\<close> on an absent key.\<close>

definition dict_getitem :: "(string \<times> 'v) list \<Rightarrow> string \<Rightarrow> error + 'v" where
  "dict_getitem d k = (case map_of d k of None \<Rightarrow> Inl (KeyError k) | Some v \<Rightarrow> Inr v)"

subsection \<open>The method \<^verbatim>\<open>capitalize\<close>\<close>

text \<open>
  \<^verbatim>\<open>bytes.capitalize\<close> works on ASCII alone: the first byte has its ASCII letter
  upper-cased, every later byte has its ASCII letter lower-cased, and a byte that is
  not an ASCII letter is left as it is.
\<close>

definition lower_letters :: string where
  "lower_letters = ''abcdefghijklmnopqrstuvwxyz''"

definition upper_letters :: string where
  "upper_letters = ''ABCDEFGHIJKLMNOPQRSTUVWXYZ''"

definition to_upper :: "char \<Rightarrow> char" where
  "to_upper c = (case map_of (zip lower_letters upper_letters) c of Some u \<Rightarrow> u | None \<Rightarrow> c)"

definition to_lower :: "char \<Rightarrow> char" where
  "to_lower c = (case map_of (zip upper_letters lower_letters) c of Some l \<Rightarrow> l | None \<Rightarrow> c)"

fun ascii_capitalize :: "string \<Rightarrow> string" where
  "ascii_capitalize [] = []"
| "ascii_capitalize (c # cs) = to_upper c # map to_lower cs"

text \<open>
  \<^verbatim>\<open>str.capitalize\<close> is aware of Unicode: it puts the first character into title
  case and lower-cases the others, by the character database of the interpreter, and
  the result can be longer than the string. On a string of ASCII characters (every
  byte of the encoding below 128) it does what \<^verbatim>\<open>bytes.capitalize\<close> does. What it
  returns on any other string is a parameter \<open>ucd\<close> of this development: the theorems
  hold whatever that function is.
\<close>

definition is_ascii :: "string \<Rightarrow> bool" where
  "is_ascii s = list_all (\<lambda>c. \<not> digit7 c) s"

definition str_capitalize :: "(string \<Rightarrow> string) \<Rightarrow> string \<Rightarrow> string" where
  "str_capitalize ucd s = (if is_ascii s then ascii_capitalize s else ucd s)"

text \<open>\<^verbatim>\<open>item.capitalize()\<close>: a string and a bytes object have the method, the other
  values do not.\<close>

fun call_capitalize :: "(string \<Rightarrow> string) \<Rightarrow> pyval \<Rightarrow> error + pyval" where
  "call_capitalize ucd (PStr s) = Inr (PStr (str_capitalize ucd s))"
| "call_capitalize ucd (PBytes b) = Inr (PBytes (ascii_capitalize b))"
| "call_capitalize ucd v = Inl AttributeError"

section \<open>The parameter sanitizer \<^verbatim>\<open>parse_null\<close>\<close>

text \<open>
  The loop of \<^verbatim>\<open>parse_null\<close> runs over the items of \<^verbatim>\<open>parameters\<close> and edits the
  copy \<^verbatim>\<open>parsed_parameters\<close>:
  \<^verbatim>\<open>
    for key, item in parameters.items():
        if not item and isinstance(item, (type(None), str)):
            del parsed_parameters[key]
        elif key == "LINESEARCH":
            parsed_parameters[key] = item.capitalize()
  \<close>
\<close>

fun parse_null_loop :: "(string \<Rightarrow> string) \<Rightarrow> pydict \<Rightarrow> pydict \<Rightarrow> error + pydict" where
  "parse_null_loop ucd [] parsed_parameters = Inr parsed_parameters"
| "parse_null_loop ucd ((key, item) # items) parsed_parameters =
     (if \<not> truthy item \<and> isinstance_none_str item then
        (case dict_delitem key parsed_parameters of
           Inl e \<Rightarrow> Inl e
         | Inr p \<Rightarrow> parse_null_loop ucd items p)
      else if key = ''LINESEARCH'' then
        (case call_capitalize ucd item of
           Inl e \<Rightarrow> Inl e
         | Inr v \<Rightarrow> parse_null_loop ucd items (dict_setitem key v parsed_parameters))
      else parse_null_loop ucd items parsed_parameters)"

definition parse_null :: "(string \<Rightarrow> string) \<Rightarrow> pydict \<Rightarrow> error + pydict" where
  "parse_null ucd parameters = parse_null_loop ucd parameters parameters"

subsection \<open>What the sanitizer computes\<close>

text \<open>The entries the first branch of the loop deletes, the entries it keeps, what the
  second branch does to a kept entry, and the one case in which it raises.\<close>

definition is_null :: "pyval \<Rightarrow> bool" where
  "is_null v = (v = PNone \<or> v = PStr [])"

fun has_capitalize :: "pyval \<Rightarrow> bool" where
  "has_capitalize (PStr s) = True"
| "has_capitalize (PBytes b) = True"
| "has_capitalize v = False"

fun normalise :: "(string \<Rightarrow> string) \<Rightarrow> string \<times> pyval \<Rightarrow> string \<times> pyval" where
  "normalise ucd (k, PStr s) = (k, PStr (if k = ''LINESEARCH'' then str_capitalize ucd s else s))"
| "normalise ucd (k, PBytes b) = (k, PBytes (if k = ''LINESEARCH'' then ascii_capitalize b else b))"
| "normalise ucd (k, v) = (k, v)"

definition kept :: "pydict \<Rightarrow> pydict" where
  "kept m = filter (\<lambda>kv. \<not> is_null (snd kv)) m"

definition bad_linesearch :: "pydict \<Rightarrow> bool" where
  "bad_linesearch m = (\<exists>v. (''LINESEARCH'', v) \<in> set m \<and> \<not> is_null v \<and> \<not> has_capitalize v)"

subsection \<open>The sanitizer on a store of objects\<close>

text \<open>
  Whether \<^verbatim>\<open>parse_null\<close> mutates its argument depends on which object each name is
  bound to, so here the dictionaries live in a store and a name holds an address (an
  index into the store). \<^verbatim>\<open>dict(parameters)\<close> allocates a new object holding a copy
  of the entries; the values are shared, and the function never changes a value in
  place. \<^verbatim>\<open>parameters.items()\<close> is a view of the live object: the iterator is at
  position \<open>i\<close>, reads the entry there, and raises \<^verbatim>\<open>RuntimeError\<close> when the size
  of the dictionary is no longer the size \<open>n\<close> it had when the loop began.
\<close>

type_synonym heap = "pydict list"

definition heap_alloc :: "pydict \<Rightarrow> heap \<Rightarrow> nat \<times> heap" where
  "heap_alloc d h = (length h, h @ [d])"

function parse_null_iter ::
  "(string \<Rightarrow> string) \<Rightarrow> nat \<Rightarrow> nat \<Rightarrow> nat \<Rightarrow> nat \<Rightarrow> heap \<Rightarrow> (error + unit) \<times> heap" where
  "parse_null_iter ucd n i parameters parsed_parameters h =
     (if length (h ! parameters) \<noteq> n then (Inl RuntimeError, h)
      else if n \<le> i then (Inr (), h)
      else (case h ! parameters ! i of (key, item) \<Rightarrow>
        if \<not> truthy item \<and> isinstance_none_str item then
          (case dict_delitem key (h ! parsed_parameters) of
             Inl e \<Rightarrow> (Inl e, h)
           | Inr p \<Rightarrow> parse_null_iter ucd n (Suc i) parameters parsed_parameters
                        (h[parsed_parameters := p]))
        else if key = ''LINESEARCH'' then
          (case call_capitalize ucd item of
             Inl e \<Rightarrow> (Inl e, h)
           | Inr v \<Rightarrow> parse_null_iter ucd n (Suc i) parameters parsed_parameters
                        (h[parsed_parameters := dict_setitem key v (h ! parsed_parameters)]))
        else parse_null_iter ucd n (Suc i) parameters parsed_parameters h))"
  by pat_completeness auto
termination
  by (relation "measure (\<lambda>(ucd, n, i, p, q, h). n - i)") auto

definition parse_null_st :: "(string \<Rightarrow> string) \<Rightarrow> nat \<Rightarrow> heap \<Rightarrow> (error + nat) \<times> heap" where
  "parse_null_st ucd parameters h =
     (case heap_alloc (h ! parameters) h of (parsed_parameters, h1) \<Rightarrow>
        (case parse_null_iter ucd (length (h1 ! parameters)) 0 parameters parsed_parameters h1 of
           (Inl e, h2) \<Rightarrow> (Inl e, h2)
         | (Inr u, h2) \<Rightarrow> (Inr parsed_parameters, h2)))"

subsection \<open>Strings for the examples\<close>

text \<open>
  Three strings that are not ASCII, in UTF-8: the letter \<^verbatim>\<open>U+0149\<close> (n preceded by
  an apostrophe), the two characters \<^verbatim>\<open>U+02BC U+004E\<close> (a modifier apostrophe and
  \<^verbatim>\<open>N\<close>), and the letter \<^verbatim>\<open>U+00DF\<close> (sharp s). \<open>unicode_excerpt\<close> holds what
  \<^verbatim>\<open>str.capitalize\<close> of CPython 3.8 and later returns on them: the title case of
  \<^verbatim>\<open>U+0149\<close> is \<^verbatim>\<open>U+02BC U+004E\<close>, capitalizing that lower-cases the \<^verbatim>\<open>N\<close>, and
  the title case of \<^verbatim>\<open>U+00DF\<close> is \<^verbatim>\<open>Ss\<close>. The examples apply it to no other
  string that is not ASCII. \<open>upper_sharp_s\<close> is \<^verbatim>\<open>str.upper\<close> of \<^verbatim>\<open>U+00DF\<close>.
\<close>

definition n_apostrophe :: string where
  "n_apostrophe = [CHR 0xC5, CHR 0x89]"

definition apostrophe_N :: string where
  "apostrophe_N = [CHR 0xCA, CHR 0xBC, CHR ''N'']"

definition apostrophe_n :: string where
  "apostrophe_n = [CHR 0xCA, CHR 0xBC, CHR ''n'']"

definition sharp_s :: string where
  "sharp_s = [CHR 0xC3, CHR 0x9F]"

definition upper_sharp_s :: string where
  "upper_sharp_s = ''SS''"

definition unicode_excerpt :: "string \<Rightarrow> string" where
  "unicode_excerpt s =
     (if s = n_apostrophe then apostrophe_N
      else if s = apostrophe_N then apostrophe_n
      else if s = sharp_s then ''Ss''
      else s)"

section \<open>Paths\<close>

text \<open>
  The functions of Python's \<^verbatim>\<open>os.path\<close> on a POSIX system that the script calls:
  \<^verbatim>\<open>str.split\<close> and \<^verbatim>\<open>str.join\<close> at the separator, \<^verbatim>\<open>os.path.join\<close>,
  \<^verbatim>\<open>os.path.normpath\<close> and \<^verbatim>\<open>os.path.abspath\<close>.
\<close>

definition sep :: char where
  "sep = CHR ''/''"

fun split_sep :: "string \<Rightarrow> string list" where
  "split_sep [] = [[]]"
| "split_sep (c # cs) =
     (if c = sep then [] # split_sep cs
      else (case split_sep cs of [] \<Rightarrow> [[c]] | w # ws \<Rightarrow> (c # w) # ws))"

fun join_sep :: "string list \<Rightarrow> string" where
  "join_sep [] = []"
| "join_sep [x] = x"
| "join_sep (x # y # ys) = x @ sep # join_sep (y # ys)"

definition isabs :: "string \<Rightarrow> bool" where
  "isabs p = (case p of [] \<Rightarrow> False | c # cs \<Rightarrow> c = sep)"

definition endswith_sep :: "string \<Rightarrow> bool" where
  "endswith_sep p = (p \<noteq> [] \<and> last p = sep)"

text \<open>One round of the loop of \<^verbatim>\<open>os.path.join(a, *p)\<close>.\<close>

definition join_step :: "string \<Rightarrow> string \<Rightarrow> string" where
  "join_step path b =
     (if isabs b then b
      else if path = [] \<or> endswith_sep path then path @ b
      else path @ sep # b)"

definition path_join :: "string \<Rightarrow> string list \<Rightarrow> string" where
  "path_join a p = foldl join_step a p"

definition initial_slashes :: "string \<Rightarrow> nat" where
  "initial_slashes path =
     (if isabs path then
        (if take 2 path = [sep, sep] \<and> take 3 path \<noteq> [sep, sep, sep] then 2 else 1)
      else 0)"

text \<open>One round of the loop of \<^verbatim>\<open>normpath\<close> over the components.\<close>

definition norm_step :: "nat \<Rightarrow> string list \<Rightarrow> string \<Rightarrow> string list" where
  "norm_step init new_comps cmp =
     (if cmp = [] \<or> cmp = ''.'' then new_comps
      else if cmp \<noteq> ''..'' \<or> (init = 0 \<and> new_comps = [])
              \<or> (new_comps \<noteq> [] \<and> last new_comps = ''..'')
        then new_comps @ [cmp]
      else if new_comps \<noteq> [] then butlast new_comps
      else new_comps)"

definition normpath_comps :: "string \<Rightarrow> string list" where
  "normpath_comps path = foldl (norm_step (initial_slashes path)) [] (split_sep path)"

definition normpath :: "string \<Rightarrow> string" where
  "normpath path =
     (if path = [] then ''.''
      else (let p = replicate (initial_slashes path) sep @ join_sep (normpath_comps path)
            in if p = [] then ''.'' else p))"

text \<open>\<^verbatim>\<open>os.path.abspath\<close> with the value of \<^verbatim>\<open>os.getcwd()\<close> as an argument.\<close>

definition abs_full :: "string \<Rightarrow> string \<Rightarrow> string" where
  "abs_full cwd path = (if isabs path then path else path_join cwd [path])"

definition abspath :: "string \<Rightarrow> string \<Rightarrow> string" where
  "abspath cwd path = normpath (abs_full cwd path)"

text \<open>
  Modelled from the spec: \<^verbatim>\<open>seisflows.config.tilde_expand\<close> is not in the source at
  hand. The Path Resolver is given a mapping of path keys to raw path strings, which
  may use home-directory shorthand, and every value has the shorthand expanded. A value
  that is not a string is outside that contract.
\<close>

definition expand_home :: "string \<Rightarrow> string \<Rightarrow> string" where
  "expand_home home val = (if take 2 val = ''~/'' then home @ sep # drop 2 val else val)"

text \<open>Modelled from the spec: \<^verbatim>\<open>tilde_expand\<close> on a mapping, value by value, in the
  order of the mapping.\<close>

fun tilde_expand :: "string \<Rightarrow> pydict \<Rightarrow> error + (string \<times> string) list" where
  "tilde_expand home [] = Inr []"
| "tilde_expand home ((key, PStr val) # d) =
     (case tilde_expand home d of
        Inl e \<Rightarrow> Inl e
      | Inr r \<Rightarrow> Inr ((key, expand_home home val) # r))"
| "tilde_expand home ((key, v) # d) = Inl TypeError"

text \<open>
  The registration of the paths in \<^verbatim>\<open>setup\<close>:
  \<^verbatim>\<open>
    paths = tilde_expand(parameters['PATHS'])
    paths = {key: os.path.abspath(path) for key, path in paths.items()}
  \<close>
\<close>

definition resolve_paths :: "string \<Rightarrow> string \<Rightarrow> pydict \<Rightarrow> error + (string \<times> string) list" where
  "resolve_paths cwd home parameters =
     (case dict_getitem parameters ''PATHS'' of
        Inl e \<Rightarrow> Inl e
      | Inr (PDict d) \<Rightarrow>
          (case tilde_expand home d of
             Inl e \<Rightarrow> Inl e
           | Inr paths \<Rightarrow> Inr (map (\<lambda>(key, path). (key, abspath cwd path)) paths))
      | Inr v \<Rightarrow> Inl AttributeError)"

section \<open>The process and its surroundings\<close>

text \<open>
  What the script reads and changes: the command line, the working directory of the
  process, the file system, the answers typed at the prompts, what is printed and
  which collaborators are called, and the registry \<^verbatim>\<open>sys.modules\<close>. A file is known
  by the components of its absolute path (there are no symbolic links), and holds what
  a loader would read from it; the working directory is known in the same way, and
  \<^verbatim>\<open>os.getcwd()\<close> is its path. The field \<open>unicode\<close> is what \<^verbatim>\<open>str.capitalize\<close>
  of the interpreter returns on text that is not ASCII.
\<close>

datatype command = Submit | Clean | Resume | Debug | Restart | Check

datatype content = Yaml pydict | Pickle pyobj | Blob

datatype node = Dir | File content

datatype event =
    Print string
  | PrintSummary "pyval list"
  | Prompt string
  | CheckCalled string
  | DriverSubmit pyobj pyobj
  | DebugShell

record world =
  arg_run :: "command option"
  arg_workdir :: "string option"
  arg_parameter_file :: "string option"
  cwd :: "string list"
  home :: string
  fs :: "(string list \<times> node) list"
  stdin :: "string list"
  events :: "event list"
  modules :: "(string \<times> pyobj) list"
  unicode :: "string \<Rightarrow> string"

definition getcwd :: "world \<Rightarrow> string" where
  "getcwd w = sep # join_sep (cwd w)"

record args =
  run :: "command option"
  workdir :: string
  parameter_file :: string

text \<open>\<^verbatim>\<open>get_args\<close>: the positional task, \<^verbatim>\<open>--workdir\<close> with the default
  \<^verbatim>\<open>os.getcwd()\<close>, \<^verbatim>\<open>--parameter_file\<close> with the default
  \<^verbatim>\<open>parameters.yaml\<close>. An option, when given, is given with its value.\<close>

definition get_args :: "world \<Rightarrow> args" where
  "get_args w =
     \<lparr>run = arg_run w,
      workdir = (case arg_workdir w of None \<Rightarrow> getcwd w | Some d \<Rightarrow> d),
      parameter_file = (case arg_parameter_file w of None \<Rightarrow> ''parameters.yaml'' | Some p \<Rightarrow> p)\<rparr>"

subsection \<open>The file system\<close>

text \<open>
  The operating system resolves a path one component at a time, from the root when the
  path begins with the separator and from the working directory when it does not. To
  step over a component the directory reached so far has to exist and be a directory:
  an empty component and \<^verbatim>\<open>.\<close> stay there, \<^verbatim>\<open>..\<close> goes to its parent (the
  root is its own parent) and a name goes to the entry of that name, which need not
  exist when it is the last one. So \<^verbatim>\<open>a/..\<close> resolves only while \<^verbatim>\<open>a\<close> is a
  directory. The empty path resolves to nothing.
\<close>

definition is_dir :: "(string list \<times> node) list \<Rightarrow> string list \<Rightarrow> bool" where
  "is_dir fsys key = (key = [] \<or> map_of fsys key = Some Dir)"

fun walk :: "(string list \<times> node) list \<Rightarrow> string list \<Rightarrow> string list \<Rightarrow> string list option" where
  "walk fsys cur [] = Some cur"
| "walk fsys cur (c # cs) =
     (if \<not> is_dir fsys cur then None
      else if c = [] \<or> c = ''.'' then walk fsys cur cs
      else if c = ''..'' then walk fsys (butlast cur) cs
      else walk fsys (cur @ [c]) cs)"

definition resolve :: "world \<Rightarrow> string \<Rightarrow> string list option" where
  "resolve w path =
     (if path = [] then None
      else walk (fs w) (if isabs path then [] else cwd w) (split_sep path))"

definition fs_lookup :: "world \<Rightarrow> string \<Rightarrow> node option" where
  "fs_lookup w path =
     (case resolve w path of
        None \<Rightarrow> None
      | Some key \<Rightarrow> if key = [] then Some Dir else map_of (fs w) key)"

text \<open>\<^verbatim>\<open>os.path.exists\<close>.\<close>

definition path_exists :: "world \<Rightarrow> string \<Rightarrow> bool" where
  "path_exists w path = (fs_lookup w path \<noteq> None)"

text \<open>\<^verbatim>\<open>print\<close> and \<^verbatim>\<open>input\<close>.\<close>

definition py_print :: "string \<Rightarrow> world \<Rightarrow> world" where
  "py_print s w = w\<lparr>events := events w @ [Print s]\<rparr>"

definition py_input :: "string \<Rightarrow> world \<Rightarrow> (error + string) \<times> world" where
  "py_input prompt w =
     (case stdin w of
        [] \<Rightarrow> (Inl EOFError, w\<lparr>events := events w @ [Prompt prompt]\<rparr>)
      | a # rest \<Rightarrow> (Inr a, w\<lparr>stdin := rest, events := events w @ [Prompt prompt]\<rparr>))"

text \<open>\<^verbatim>\<open>sys.modules[name] = obj\<close>.\<close>

definition set_module :: "string \<Rightarrow> pyobj \<Rightarrow> world \<Rightarrow> world" where
  "set_module name obj w = w\<lparr>modules := dict_setitem name obj (modules w)\<rparr>"

text \<open>A path \<open>k\<close> is \<open>d\<close> or lies under it.\<close>

definition is_under :: "string list \<Rightarrow> string list \<Rightarrow> bool" where
  "is_under d k = (take (length d) k = d)"

text \<open>
  Modelled from the spec: \<^verbatim>\<open>seisflows.tools.unix\<close> (\<^verbatim>\<open>rm\<close>, \<^verbatim>\<open>mkdir\<close>, \<^verbatim>\<open>cd\<close>) is
  not in the source at hand. They are the file system primitives of the
  specification: removal of a file or of a directory with all it holds (removing what
  is not there does nothing: \<^verbatim>\<open>clean\<close> of a directory with no scratch space
  succeeds), creation of a directory, and the change of the working directory.
\<close>

definition unix_rm :: "string \<Rightarrow> world \<Rightarrow> world" where
  "unix_rm path w =
     (case resolve w path of
        None \<Rightarrow> w
      | Some key \<Rightarrow> w\<lparr>fs := filter (\<lambda>(k, n). \<not> is_under key k) (fs w)\<rparr>)"

text \<open>Modelled from the spec: \<^verbatim>\<open>unix.mkdir\<close>, the creation of a directory in a
  directory that exists; a directory that is there already is left as it is.\<close>

definition unix_mkdir :: "string \<Rightarrow> world \<Rightarrow> (error + unit) \<times> world" where
  "unix_mkdir path w =
     (case resolve w path of
        None \<Rightarrow> (Inl (FileNotFoundError path), w)
      | Some key \<Rightarrow>
          (case fs_lookup w path of
             Some Dir \<Rightarrow> (Inr (), w)
           | Some (File c) \<Rightarrow> (Inl (FileExistsError path), w)
           | None \<Rightarrow> (Inr (), w\<lparr>fs := fs w @ [(key, Dir)]\<rparr>)))"

text \<open>Modelled from the spec: \<^verbatim>\<open>unix.cd\<close>, the change of the working directory
  to a directory that exists.\<close>

definition unix_cd :: "string \<Rightarrow> world \<Rightarrow> (error + unit) \<times> world" where
  "unix_cd path w =
     (case resolve w path of
        None \<Rightarrow> (Inl (FileNotFoundError path), w)
      | Some key \<Rightarrow>
          (case fs_lookup w path of
             Some Dir \<Rightarrow> (Inr (), w\<lparr>cwd := key\<rparr>)
           | Some (File c) \<Rightarrow> (Inl (NotADirectoryError path), w)
           | None \<Rightarrow> (Inl (FileNotFoundError path), w)))"

text \<open>
  Modelled from the spec: \<^verbatim>\<open>seisflows.tools.tools.loadyaml\<close> is not in the source at
  hand. It is the YAML loader producing a flat key/value mapping; a parameter file
  that is missing or malformed is a \<^verbatim>\<open>ConfigError\<close>.
\<close>

definition loadyaml :: "string \<Rightarrow> world \<Rightarrow> error + pydict" where
  "loadyaml path w =
     (case fs_lookup w path of
        Some (File (Yaml d)) \<Rightarrow> Inr d
      | _ \<Rightarrow> Inl (ConfigError path))"

text \<open>
  Modelled from the spec: \<^verbatim>\<open>seisflows.tools.tools.loadobj\<close> is not in the source at
  hand. \<^verbatim>\<open>load\<close> deserializes the Checkpoint Record of a role into a new instance; it
  fails with \<^verbatim>\<open>CheckpointMissing\<close> if no record exists, and with
  \<^verbatim>\<open>CheckpointCorrupt\<close> if the stored bytes cannot be deserialized.
\<close>

definition loadobj :: "string \<Rightarrow> world \<Rightarrow> error + pyobj" where
  "loadobj path w =
     (case fs_lookup w path of
        None \<Rightarrow> Inl (CheckpointMissing path)
      | Some (File (Pickle obj)) \<Rightarrow> Inr obj
      | Some n \<Rightarrow> Inl (CheckpointCorrupt path))"

text \<open>
  \<^verbatim>\<open>glob(os.path.join(workdir, pattern))\<close> for a pattern made of plain characters
  and \<^verbatim>\<open>*\<close>, which is what the two patterns of \<^verbatim>\<open>clean\<close> are. When the name
  of the directory is free of the characters \<^verbatim>\<open>*\<close>, \<^verbatim>\<open>?\<close> and \<^verbatim>\<open>[\<close>,
  \<^verbatim>\<open>glob\<close> lists that directory (the current one when the name is empty; nothing
  when the name does not resolve to a directory) and returns the name of the directory
  joined with each entry that matches the pattern; a name that begins with a dot matches
  only a pattern that begins with a dot. \<^verbatim>\<open>glob\<close> joins with the name of the
  directory less its trailing separators, which names the same file. When the name of the
  directory has one of the three characters, \<^verbatim>\<open>glob\<close> reads it as a pattern too and
  matches it against the file system; what it returns then is not modelled.
\<close>

definition has_magic :: "string \<Rightarrow> bool" where
  "has_magic s = (\<exists>c \<in> set s. c \<in> set ''*?['')"

fun fnmatch :: "string \<Rightarrow> string \<Rightarrow> bool" where
  "fnmatch [] [] = True"
| "fnmatch [] (p # ps) = (p = CHR ''*'' \<and> fnmatch [] ps)"
| "fnmatch (c # cs) [] = False"
| "fnmatch (c # cs) (p # ps) =
     (if p = CHR ''*'' then fnmatch (c # cs) ps \<or> fnmatch cs (p # ps)
      else c = p \<and> fnmatch cs ps)"

definition ishidden :: "string \<Rightarrow> bool" where
  "ishidden name = (take 1 name = ''.'')"

text \<open>\<^verbatim>\<open>dirname or os.curdir\<close>, the directory that \<^verbatim>\<open>glob\<close> lists.\<close>

definition or_curdir :: "string \<Rightarrow> string" where
  "or_curdir dir = (if dir = [] then ''.'' else dir)"

definition listdir :: "world \<Rightarrow> string \<Rightarrow> string list" where
  "listdir w dir =
     (case resolve w (or_curdir dir) of
        None \<Rightarrow> []
      | Some d \<Rightarrow>
          if is_dir (fs w) d
          then map (\<lambda>(k, n). last k)
                 (filter (\<lambda>(k, n). length k = Suc (length d) \<and> is_under d k) (fs w))
          else [])"

definition glob_names :: "world \<Rightarrow> string \<Rightarrow> string \<Rightarrow> string list" where
  "glob_names w dir pat =
     map (\<lambda>name. path_join dir [name])
       (filter (\<lambda>name. (ishidden pat \<or> \<not> ishidden name) \<and> fnmatch name pat) (listdir w dir))"

definition glob_in :: "world \<Rightarrow> string \<Rightarrow> string \<Rightarrow> error + string list" where
  "glob_in w dir pat =
     (if has_magic dir then Inl (Unmodelled ''glob'') else Inr (glob_names w dir pat))"

section \<open>The lifecycle operations\<close>

definition nl :: char where
  "nl = CHR 0x0A"

definition tab :: char where
  "tab = CHR 0x09"

fun getitems :: "(string \<times> 'v) list \<Rightarrow> string list \<Rightarrow> error + 'v list" where
  "getitems par [] = Inr []"
| "getitems par (k # ks) =
     (case dict_getitem par k of
        Inl e \<Rightarrow> Inl e
      | Inr v \<Rightarrow> (case getitems par ks of Inl e \<Rightarrow> Inl e | Inr vs \<Rightarrow> Inr (v # vs)))"

text \<open>The keys that the message of \<^verbatim>\<open>precheck_parameters\<close> reads, in its order.\<close>

definition precheck_keys :: "string list" where
  "precheck_keys = [''TITLE'', ''WORKFLOW'', ''BEGIN'', ''END'', ''RESUME_FROM'', ''STOP_AFTER'',
     ''NTASK'', ''WALLTIME'', ''CASE'', ''SMOOTH_H'', ''SMOOTH_V'']"

definition precheck_parameters :: "pydict \<Rightarrow> world \<Rightarrow> (error + unit) \<times> world" where
  "precheck_parameters par w =
     (case getitems par precheck_keys of
        Inl e \<Rightarrow> (Inl e, w)
      | Inr vals \<Rightarrow>
          (case py_input ''Continue? (y/[n]): '' (w\<lparr>events := events w @ [PrintSummary vals]\<rparr>) of
             (Inl e, w1) \<Rightarrow> (Inl e, w1)
           | (Inr check, w1) \<Rightarrow>
               if check \<noteq> ''y'' then (Inl (SystemExit (Some (- 1))), w1) else (Inr (), w1)))"

definition setup_fn :: "bool \<Rightarrow> world \<Rightarrow> (error + args \<times> (string \<times> string) list \<times> pydict) \<times> world" where
  "setup_fn precheck w =
     (let args = get_args w in
      if \<not> path_exists w (parameter_file args)
      then (Inl (FileNotFoundError (parameter_file args)), w)
      else
        (case loadyaml (parameter_file args) w of
           Inl e \<Rightarrow> (Inl e, w)
         | Inr parameters0 \<Rightarrow>
        (case (if precheck then precheck_parameters parameters0 w else (Inr (), w)) of
           (Inl e, w1) \<Rightarrow> (Inl e, w1)
         | (Inr u, w1) \<Rightarrow>
        (case parse_null (unicode w1) parameters0 of
           Inl e \<Rightarrow> (Inl e, w1)
         | Inr parameters \<Rightarrow>
        (let w2 = set_module ''seisflows_parameters'' (ParObj parameters) w1 in
         case resolve_paths (getcwd w2) (home w2) parameters of
           Inl e \<Rightarrow> (Inl e, w2)
         | Inr paths \<Rightarrow>
             (Inr (args, paths, parameters),
              set_module ''seisflows_paths'' (PathObj paths) w2))))))"

text \<open>The first loop of \<^verbatim>\<open>submit\<close>, which collects the paths that do not exist.\<close>

fun paths_dont_exist :: "world \<Rightarrow> (string \<times> string) list \<Rightarrow> string list" where
  "paths_dont_exist w [] = []"
| "paths_dont_exist w ((key, path) # ps) =
     (if key \<in> set [''OUTPUT'', ''SCRATCH''] \<or> path = [] then paths_dont_exist w ps
      else if \<not> path_exists w path then path # paths_dont_exist w ps
      else paths_dont_exist w ps)"

definition print_missing :: "string list \<Rightarrow> world \<Rightarrow> world" where
  "print_missing missing w =
     py_print [nl]
       (foldl (\<lambda>w' path'. py_print (tab # path') w')
          (py_print (nl # ''The following paths do not exist:'' @ [nl]) w) missing)"

text \<open>The names \<^verbatim>\<open>f"seisflows_{name}"\<close> of a role in the registry and
  \<^verbatim>\<open>os.path.join(args.workdir, "output", f"seisflows_{name}.p")\<close> of its checkpoint.\<close>

definition registry_name :: "string \<Rightarrow> string" where
  "registry_name name = ''seisflows_'' @ name"

definition checkpoint_file :: "string \<Rightarrow> string \<Rightarrow> string" where
  "checkpoint_file wd name = path_join wd [''output'', ''seisflows_'' @ name @ ''.p'']"

definition get_module :: "string \<Rightarrow> world \<Rightarrow> error + pyobj" where
  "get_module name w = dict_getitem (modules w) name"

text \<open>
  Modelled from the spec: \<^verbatim>\<open>seisflows.config.config\<close> and the list \<^verbatim>\<open>names\<close> are
  not in the source at hand. \<^verbatim>\<open>config\<close> constructs all Module Handles from the
  configuration and populates the Registry; the construction of a module runs its
  own validation, and a failure there is fatal. The list of roles and the constructor
  of a role are parameters of the model.
\<close>

fun config :: "(string \<Rightarrow> world \<Rightarrow> error + pyobj) \<Rightarrow> string list \<Rightarrow> world \<Rightarrow> (error + unit) \<times> world" where
  "config new_module [] w = (Inr (), w)"
| "config new_module (name # names) w =
     (case new_module name w of
        Inl e \<Rightarrow> (Inl e, w)
      | Inr obj \<Rightarrow> config new_module names (set_module (registry_name name) obj w))"

text \<open>
  Modelled from the spec: the modules themselves are not in the source at hand. The
  \<^verbatim>\<open>check\<close> of a role is its own validation, whose failure is a
  \<^verbatim>\<open>ModuleValidationError\<close>; \<^verbatim>\<open>system.submit(workflow)\<close> invokes the workflow
  driver, whose work is outside this model.
\<close>

definition call_check :: "string \<Rightarrow> pyobj \<Rightarrow> world \<Rightarrow> (error + unit) \<times> world" where
  "call_check name obj w =
     (case obj of
        Instance s ok \<Rightarrow>
          (if ok then (Inr (), w\<lparr>events := events w @ [CheckCalled name]\<rparr>)
           else (Inl (ModuleValidationError name), w\<lparr>events := events w @ [CheckCalled name]\<rparr>))
      | _ \<Rightarrow> (Inl AttributeError, w))"

text \<open>Modelled from the spec: \<^verbatim>\<open>system.submit(workflow)\<close>, the hand-over to the
  workflow driver, recorded as an event.\<close>

definition system_submit :: "pyobj \<Rightarrow> pyobj \<Rightarrow> world \<Rightarrow> world" where
  "system_submit system workflow w = w\<lparr>events := events w @ [DriverSubmit system workflow]\<rparr>"

definition submit :: "(string \<Rightarrow> world \<Rightarrow> error + pyobj) \<Rightarrow> string list \<Rightarrow> world \<Rightarrow> (error + unit) \<times> world" where
  "submit new_module names w =
     (case setup_fn True w of
        (Inl e, w1) \<Rightarrow> (Inl e, w1)
      | (Inr (args, paths, parameters), w1) \<Rightarrow>
          (if paths_dont_exist w1 paths \<noteq> []
           then (Inl (SystemExit None), print_missing (paths_dont_exist w1 paths) w1)
           else
        (case unix_mkdir (workdir args) (set_module ''seisflows_paths'' (PathObj paths) w1) of
           (Inl e, w2) \<Rightarrow> (Inl e, w2)
         | (Inr u, w2) \<Rightarrow>
        (case unix_cd (workdir args) w2 of
           (Inl e, w3) \<Rightarrow> (Inl e, w3)
         | (Inr u, w3) \<Rightarrow>
        (case config new_module names w3 of
           (Inl e, w4) \<Rightarrow> (Inl e, w4)
         | (Inr u, w4) \<Rightarrow>
        (case get_module ''seisflows_workflow'' w4 of
           Inl e \<Rightarrow> (Inl e, w4)
         | Inr workflow \<Rightarrow>
        (case get_module ''seisflows_system'' w4 of
           Inl e \<Rightarrow> (Inl e, w4)
         | Inr system \<Rightarrow> (Inr (), system_submit system workflow w4))))))))"

text \<open>The two loops over \<^verbatim>\<open>names\<close> that \<^verbatim>\<open>resume\<close> and \<^verbatim>\<open>debug\<close> share.\<close>

fun load_loop :: "string \<Rightarrow> string list \<Rightarrow> world \<Rightarrow> (error + unit) \<times> world" where
  "load_loop wd [] w = (Inr (), w)"
| "load_loop wd (name # names) w =
     (case loadobj (checkpoint_file wd name) w of
        Inl e \<Rightarrow> (Inl e, w)
      | Inr obj \<Rightarrow> load_loop wd names (set_module (registry_name name) obj w))"

fun check_loop :: "string list \<Rightarrow> world \<Rightarrow> (error + unit) \<times> world" where
  "check_loop [] w = (Inr (), w)"
| "check_loop (name # names) w =
     (case get_module (registry_name name) w of
        Inl e \<Rightarrow> (Inl e, w)
      | Inr obj \<Rightarrow>
          (case call_check name obj w of
             (Inl e, w1) \<Rightarrow> (Inl e, w1)
           | (Inr u, w1) \<Rightarrow> check_loop names w1))"

definition resume :: "string list \<Rightarrow> world \<Rightarrow> (error + unit) \<times> world" where
  "resume names w =
     (case setup_fn True w of
        (Inl e, w1) \<Rightarrow> (Inl e, w1)
      | (Inr (args, paths, parameters), w1) \<Rightarrow>
        (case unix_cd (workdir args) w1 of
           (Inl e, w2) \<Rightarrow> (Inl e, w2)
         | (Inr u, w2) \<Rightarrow>
        (case load_loop (workdir args) names w2 of
           (Inl e, w3) \<Rightarrow> (Inl e, w3)
         | (Inr u, w3) \<Rightarrow>
        (case check_loop names w3 of
           (Inl e, w4) \<Rightarrow> (Inl e, w4)
         | (Inr u, w4) \<Rightarrow>
        (case get_module ''seisflows_workflow'' w4 of
           Inl e \<Rightarrow> (Inl e, w4)
         | Inr workflow \<Rightarrow>
        (case get_module ''seisflows_system'' w4 of
           Inl e \<Rightarrow> (Inl e, w4)
         | Inr system \<Rightarrow> (Inr (), system_submit system workflow w4)))))))"

text \<open>\<^verbatim>\<open>debug\<close> ends by handing the registry to an interactive shell, which is outside
  this model.\<close>

definition debug :: "string list \<Rightarrow> world \<Rightarrow> (error + unit) \<times> world" where
  "debug names w =
     (case setup_fn False w of
        (Inl e, w1) \<Rightarrow> (Inl e, w1)
      | (Inr (args, paths, parameters), w1) \<Rightarrow>
        (case unix_cd (workdir args) w1 of
           (Inl e, w2) \<Rightarrow> (Inl e, w2)
         | (Inr u, w2) \<Rightarrow>
        (case load_loop (workdir args) names w2 of
           (Inl e, w3) \<Rightarrow> (Inl e, w3)
         | (Inr u, w3) \<Rightarrow>
        (case check_loop names w3 of
           (Inl e, w4) \<Rightarrow> (Inl e, w4)
         | (Inr u, w4) \<Rightarrow>
        (case getitems (modules w4)
                [''seisflows_workflow'', ''seisflows_system'', ''seisflows_paths'',
                 ''seisflows_parameters'', ''seisflows_system'', ''seisflows_solver'',
                 ''seisflows_optimize'', ''seisflows_preprocess'', ''seisflows_postprocess''] of
           Inl e \<Rightarrow> (Inl e, w4)
         | Inr objs \<Rightarrow> (Inr (), w4\<lparr>events := events w4 @ [DebugShell]\<rparr>))))))"

definition clean_prompt :: string where
  "clean_prompt = nl # ''This will remove all workflow objects, leaving only the parameter file.''
     @ nl # ''Are you sure you want to clean? (y/[n]): ''"

definition rm_all :: "string list \<Rightarrow> world \<Rightarrow> world" where
  "rm_all fids w = foldl (\<lambda>w' fid. unix_rm fid w') w fids"

definition clean :: "string option \<Rightarrow> world \<Rightarrow> (error + unit) \<times> world" where
  "clean workdir_opt w =
     (let wd = (case workdir_opt of None \<Rightarrow> getcwd w | Some d \<Rightarrow> d) in
      case py_input clean_prompt w of
        (Inl e, w1) \<Rightarrow> (Inl e, w1)
      | (Inr check, w1) \<Rightarrow>
          if check = ''y'' then
            (case glob_in w1 wd ''output*'' of
               Inl e \<Rightarrow> (Inl e, w1)
             | Inr fids1 \<Rightarrow>
                 (let w2 = rm_all fids1 w1 in
                  case glob_in w2 wd ''*log*'' of
                    Inl e \<Rightarrow> (Inl e, w2)
                  | Inr fids2 \<Rightarrow>
                      (Inr (), unix_rm (path_join wd [''scratch'']) (rm_all fids2 w2))))
          else (Inr (), w1))"

definition main :: "(string \<Rightarrow> world \<Rightarrow> error + pyobj) \<Rightarrow> string list \<Rightarrow> world \<Rightarrow> (error + unit) \<times> world" where
  "main new_module names w =
     (let args' = get_args w in
      if run args' = Some Submit then submit new_module names w
      else if run args' = Some Resume then resume names w
      else if run args' = Some Debug then debug names w
      else if run args' = Some Clean then clean (Some (workdir args')) w
      else if run args' = Some Restart then
        (case clean (Some (workdir args')) w of
           (Inl e, w1) \<Rightarrow> (Inl e, w1)
         | (Inr u, w1) \<Rightarrow> submit new_module names w1)
      else (Inr (), w))"

section \<open>File names and the run directory\<close>

text \<open>A file name is a component of a path: it is not empty, not a dot or two dots, and
  has no separator in it. The names of a file system are file names. A name matches
  a pattern of \<^verbatim>\<open>glob\<close> as \<open>glob_in\<close> tests it.\<close>

definition plain :: "string \<Rightarrow> bool" where
  "plain c = (c \<noteq> [] \<and> c \<noteq> ''.'' \<and> c \<noteq> ''..'' \<and> sep \<notin> set c)"



section \<open>A run directory for the examples\<close>

text \<open>A parameter file with the keys of the summary, one unused path, one path under
  the home directory and an output path; a home directory with the model and a run
  directory, which holds that file, the output directory with the checkpoint of one
  role, and a log file.\<close>

definition example_parameters :: pydict where
  "example_parameters =
     [(''TITLE'', PStr ''example''), (''WORKFLOW'', PStr ''inversion''), (''BEGIN'', PInt 1),
      (''END'', PInt 2), (''RESUME_FROM'', PNone), (''STOP_AFTER'', PNone), (''NTASK'', PInt 1),
      (''WALLTIME'', PInt 10), (''CASE'', PStr ''data''), (''SMOOTH_H'', PInt 0),
      (''SMOOTH_V'', PInt 0),
      (''PATHS'', PDict [(''DATA'', PStr []), (''MODEL'', PStr ''~/model''),
                         (''OUTPUT'', PStr ''output'')])]"

definition example_fs :: "(string list \<times> node) list" where
  "example_fs =
     [([''home''], Dir), ([''home'', ''u''], Dir), ([''home'', ''u'', ''model''], Dir),
      ([''home'', ''u'', ''run''], Dir),
      ([''home'', ''u'', ''run'', ''parameters.yaml''], File (Yaml example_parameters)),
      ([''home'', ''u'', ''run'', ''output''], Dir),
      ([''home'', ''u'', ''run'', ''output'', ''seisflows_system.p''],
         File (Pickle (Instance ''system state'' True))),
      ([''home'', ''u'', ''run'', ''mylog.txt''], File Blob)]"

definition example_world :: "command \<Rightarrow> string list \<Rightarrow> world" where
  "example_world task answers =
     \<lparr>arg_run = Some task, arg_workdir = None, arg_parameter_file = None,
      cwd = [''home'', ''u'', ''run''], home = ''/home/u'', fs = example_fs,
      stdin = answers, events = [], modules = [], unicode = unicode_excerpt\<rparr>"

text \<open>What the set-up computes from that parameter file, and the state it leaves when
  the summary is confirmed.\<close>

definition example_paths :: "(string \<times> string) list" where
  "example_paths = [(''DATA'', ''/home/u/run''), (''MODEL'', ''/home/u/model''),
     (''OUTPUT'', ''/home/u/run/output'')]"

definition example_sanitized :: pydict where
  "example_sanitized = filter (\<lambda>kv. snd kv \<noteq> PNone) example_parameters"

definition example_after_setup :: "command \<Rightarrow> string list \<Rightarrow> world" where
  "example_after_setup task answers =
     (example_world task answers)
       \<lparr>events := [PrintSummary (map snd (take 11 example_parameters)), Prompt ''Continue? (y/[n]): ''],
        modules := [(''seisflows_parameters'', ParObj example_sanitized),
                    (''seisflows_paths'', PathObj example_paths)]\<rparr>"

text \<open>A constructor of roles for the examples: every role is built and passes its
  validation.\<close>

definition example_new_module :: "string \<Rightarrow> world \<Rightarrow> error + pyobj" where
  "example_new_module name w = Inr (Instance name True)"

section \<open>The loop of resume over the roles\<close>

text \<open>The state in which the loop of \<^verbatim>\<open>resume\<close> over \<^verbatim>\<open>names\<close> begins, and the
  registry after the roles of a list have been loaded.\<close>

definition resume_start :: "world \<Rightarrow> world" where
  "resume_start w = snd (unix_cd (workdir (get_args w)) (snd (setup_fn True w)))"

fun load_into :: "string \<Rightarrow> world \<Rightarrow> (string \<times> pyobj) list \<Rightarrow> string list \<Rightarrow> (string \<times> pyobj) list" where
  "load_into wd w m [] = m"
| "load_into wd w m (n # ns) =
     (case loadobj (checkpoint_file wd n) w of
        Inl e \<Rightarrow> load_into wd w m ns
      | Inr obj \<Rightarrow> load_into wd w (dict_setitem (registry_name n) obj m) ns)"

definition loaded_modules :: "string \<Rightarrow> world \<Rightarrow> string list \<Rightarrow> (string \<times> pyobj) list" where
  "loaded_modules wd w pre = load_into wd w (modules w) pre"

section \<open>Properties of the sanitizer\<close>

lemma removal_test_iff: "(\<not> truthy item \<and> isinstance_none_str item) = is_null item"
  by (cases item) (auto simp: is_null_def)

lemma dict_delitem_middle:
  "k \<notin> fst ` set pre \<Longrightarrow> dict_delitem k (pre @ (k, v) # post) = Inr (pre @ post)"
  by (induction pre) auto

lemma dict_setitem_middle:
  "k \<notin> fst ` set pre \<Longrightarrow> dict_setitem k v' (pre @ (k, v) # post) = pre @ (k, v') # post"
  by (induction pre) auto

lemma fst_normalise [simp]: "fst (normalise ucd kv) = fst kv"
  by (cases "(ucd, kv)" rule: normalise.cases) auto

lemma call_capitalize_has:
  "has_capitalize v \<Longrightarrow> call_capitalize ucd v = Inr (snd (normalise ucd (''LINESEARCH'', v)))"
  by (cases v) auto

lemma call_capitalize_has_not: "\<not> has_capitalize v \<Longrightarrow> call_capitalize ucd v = Inl AttributeError"
  by (cases v) auto

lemma normalise_other: "k \<noteq> ''LINESEARCH'' \<Longrightarrow> normalise ucd (k, v) = (k, v)"
  by (cases "(ucd, (k, v))" rule: normalise.cases) auto

lemma parse_null_loop_char:
  "distinct (map fst (pre @ items)) \<Longrightarrow>
   parse_null_loop ucd items (pre @ items) =
     (if bad_linesearch items then Inl AttributeError
      else Inr (pre @ map (normalise ucd) (kept items)))"
proof (induction items arbitrary: pre)
  case Nil
  then show ?case by (simp add: bad_linesearch_def kept_def)
next
  case (Cons kv items)
  obtain key item where kv: "kv = (key, item)" by (cases kv)
  from Cons.prems kv have fresh: "key \<notin> fst ` set pre" and fresh': "key \<notin> fst ` set items"
    and d1: "distinct (map fst (pre @ items))"
    and d2: "\<And>v. distinct (map fst ((pre @ [(key, v)]) @ items))"
    by auto
  have nols: "key = ''LINESEARCH'' \<Longrightarrow> \<not> bad_linesearch items"
    using fresh' by (force simp: bad_linesearch_def)
  show ?case
  proof (cases "is_null item")
    case True
    then have "bad_linesearch (kv # items) = bad_linesearch items"
      by (auto simp: bad_linesearch_def kv)
    moreover have "kept (kv # items) = kept items"
      using True by (simp add: kept_def kv)
    ultimately show ?thesis
      using True Cons.IH [OF d1] fresh
      by (simp add: kv removal_test_iff dict_delitem_middle)
  next
    case False
    note nn = this
    show ?thesis
    proof (cases "key = ''LINESEARCH''")
      case True
      show ?thesis
      proof (cases "has_capitalize item")
        case True
        have "\<not> bad_linesearch (kv # items)"
          using nols \<open>key = ''LINESEARCH''\<close> True by (auto simp: bad_linesearch_def kv)
        moreover have "kept (kv # items) = kv # kept items"
          using nn by (simp add: kept_def kv)
        moreover have "normalise ucd (key, item) = (key, snd (normalise ucd (''LINESEARCH'', item)))"
          using \<open>key = ''LINESEARCH''\<close> by (cases item) auto
        ultimately show ?thesis
          using nn \<open>key = ''LINESEARCH''\<close> True
            Cons.IH [OF d2, of "snd (normalise ucd (''LINESEARCH'', item))"] fresh nols
          by (simp add: kv removal_test_iff call_capitalize_has dict_setitem_middle)
      next
        case False
        have "bad_linesearch (kv # items)"
          using nn \<open>key = ''LINESEARCH''\<close> False by (auto simp: bad_linesearch_def kv)
        then show ?thesis
          using nn \<open>key = ''LINESEARCH''\<close> False
          by (simp add: kv removal_test_iff call_capitalize_has_not)
      qed
    next
      case False
      have "bad_linesearch (kv # items) = bad_linesearch items"
        using False by (auto simp: bad_linesearch_def kv)
      moreover have "kept (kv # items) = kv # kept items"
        using nn by (simp add: kept_def kv)
      ultimately show ?thesis
        using nn False Cons.IH [OF d2]
        by (simp add: kv removal_test_iff normalise_other)
    qed
  qed
qed

lemma parse_null_char:
  "distinct (map fst m) \<Longrightarrow>
   parse_null ucd m =
     (if bad_linesearch m then Inl AttributeError else Inr (map (normalise ucd) (kept m)))"
  using parse_null_loop_char [of "[]" m ucd] by (simp add: parse_null_def)

subsection \<open>The ASCII letters\<close>

lemmas case_defs = to_upper_def to_lower_def lower_letters_def upper_letters_def

lemmas excerpt_defs = unicode_excerpt_def n_apostrophe_def apostrophe_N_def apostrophe_n_def
  sharp_s_def upper_sharp_s_def str_capitalize_def is_ascii_def

lemma to_upper_idem: "to_upper (to_upper c) = to_upper c"
  by (simp add: case_defs)

lemma to_lower_idem: "to_lower (to_lower c) = to_lower c"
  by (simp add: case_defs)

lemma to_lower_to_upper: "to_lower (to_upper c) = to_lower c"
  by (simp add: case_defs)

text \<open>The two tables, read off: the lower-case letters go to the upper-case letters and
  back, and a character that is not a letter is left alone.\<close>

lemma to_upper_letters: "map to_upper lower_letters = upper_letters"
  "map to_upper upper_letters = upper_letters"
  by (simp_all add: case_defs)

lemma to_lower_letters: "map to_lower upper_letters = lower_letters"
  "map to_lower lower_letters = lower_letters"
  by (simp_all add: case_defs)

lemma to_upper_other: "c \<notin> set lower_letters \<Longrightarrow> to_upper c = c"
  by (simp add: case_defs)

lemma to_lower_other: "c \<notin> set upper_letters \<Longrightarrow> to_lower c = c"
  by (simp add: case_defs)

lemma digit7_to_upper [simp]: "digit7 (to_upper c) = digit7 c"
  by (simp add: case_defs)

lemma digit7_to_lower [simp]: "digit7 (to_lower c) = digit7 c"
  by (simp add: case_defs)

lemma ascii_capitalize_idem: "ascii_capitalize (ascii_capitalize s) = ascii_capitalize s"
  by (cases s) (auto simp: to_upper_idem to_lower_idem)

lemma ascii_capitalize_eq_Nil [simp]: "(ascii_capitalize s = []) = (s = [])"
  by (cases s) auto

lemma is_ascii_capitalize [simp]: "is_ascii (ascii_capitalize s) = is_ascii s"
  by (cases s) (auto simp: is_ascii_def list_all_iff)

lemma str_capitalize_ascii: "is_ascii s \<Longrightarrow> str_capitalize ucd s = ascii_capitalize s"
  by (simp add: str_capitalize_def)

lemma str_capitalize_ascii_idem:
  "is_ascii s \<Longrightarrow> str_capitalize ucd (str_capitalize ucd s) = str_capitalize ucd s"
  by (simp add: str_capitalize_def ascii_capitalize_idem)

lemma is_null_normalise_ascii:
  "(\<forall>s. snd kv = PStr s \<longrightarrow> fst kv = ''LINESEARCH'' \<longrightarrow> is_ascii s) \<Longrightarrow>
   is_null (snd (normalise ucd kv)) = is_null (snd kv)"
  by (cases "(ucd, kv)" rule: normalise.cases) (auto simp: is_null_def str_capitalize_def)

lemma has_capitalize_normalise [simp]:
  "has_capitalize (snd (normalise ucd kv)) = has_capitalize (snd kv)"
  by (cases "(ucd, kv)" rule: normalise.cases) auto

lemma normalise_idem_ascii:
  "(\<forall>s. snd kv = PStr s \<longrightarrow> fst kv = ''LINESEARCH'' \<longrightarrow> is_ascii s) \<Longrightarrow>
   normalise ucd (normalise ucd kv) = normalise ucd kv"
  by (cases "(ucd, kv)" rule: normalise.cases)
     (auto simp: str_capitalize_ascii_idem ascii_capitalize_idem)

lemma distinct_keys_result:
  "distinct (map fst m) \<Longrightarrow> distinct (map fst (map (normalise ucd) (kept m)))"
  by (simp add: kept_def o_def distinct_map_filter)

lemma bad_linesearch_iff:
  assumes "distinct (map fst m)"
  shows "bad_linesearch m =
     (\<exists>v. map_of m ''LINESEARCH'' = Some v \<and> v \<noteq> PNone \<and> (\<forall>s. v \<noteq> PStr s) \<and> (\<forall>b. v \<noteq> PBytes b))"
proof -
  have "\<And>v. (\<not> is_null v \<and> \<not> has_capitalize v) =
      (v \<noteq> PNone \<and> (\<forall>s. v \<noteq> PStr s) \<and> (\<forall>b. v \<noteq> PBytes b))"
    subgoal for v by (cases v) (auto simp: is_null_def)
    done
  then show ?thesis
    using assms by (auto simp: bad_linesearch_def)
qed

lemma ascii_linesearch_entries:
  assumes "distinct (map fst m)"
    and "\<forall>s. map_of m ''LINESEARCH'' = Some (PStr s) \<longrightarrow> is_ascii s"
    and "kv \<in> set m"
  shows "\<forall>s. snd kv = PStr s \<longrightarrow> fst kv = ''LINESEARCH'' \<longrightarrow> is_ascii s"
proof (intro allI impI)
  fix s assume "snd kv = PStr s" and "fst kv = ''LINESEARCH''"
  then have "(''LINESEARCH'', PStr s) \<in> set m"
    using assms(3) by (metis prod.collapse)
  then have "map_of m ''LINESEARCH'' = Some (PStr s)"
    using assms(1) by simp
  then show "is_ascii s" using assms(2) by blast
qed

text \<open>
  Claim C4, as amended. Sanitizing is idempotent on every configuration mapping (a
  dictionary, so with distinct keys) whose \<^verbatim>\<open>LINESEARCH\<close> value, if it is a string,
  is ASCII text: \<^verbatim>\<open>parse_null(parse_null(m))\<close> equals \<^verbatim>\<open>parse_null(m)\<close>. When the
  first call raises, the nested call raises the same exception; when it returns a
  mapping, sanitizing that mapping returns it unchanged.
\<close>

theorem parse_null_idempotent:
  assumes "distinct (map fst m)"
    and "\<forall>s. map_of m ''LINESEARCH'' = Some (PStr s) \<longrightarrow> is_ascii s"
  shows "(case parse_null ucd m of Inl e \<Rightarrow> Inl e | Inr d \<Rightarrow> parse_null ucd d) = parse_null ucd m"
proof (cases "bad_linesearch m")
  case True
  with assms(1) show ?thesis by (simp add: parse_null_char)
next
  case False
  let ?d = "map (normalise ucd) (kept m)"
  note asc = ascii_linesearch_entries [OF assms]
  have 1: "parse_null ucd m = Inr ?d" using assms(1) False by (simp add: parse_null_char)
  have k: "kept ?d = ?d"
  proof -
    have "\<forall>kv \<in> set (kept m). \<not> is_null (snd (normalise ucd kv))"
    proof
      fix kv assume kv: "kv \<in> set (kept m)"
      then have "kv \<in> set m" and "\<not> is_null (snd kv)" by (simp_all add: kept_def)
      then show "\<not> is_null (snd (normalise ucd kv))"
        using is_null_normalise_ascii [OF asc, of kv ucd] by simp
    qed
    then show ?thesis by (simp add: kept_def [of ?d])
  qed
  have n: "map (normalise ucd) ?d = ?d"
  proof -
    have "\<forall>kv \<in> set (kept m). normalise ucd (normalise ucd kv) = normalise ucd kv"
    proof
      fix kv assume "kv \<in> set (kept m)"
      then have "kv \<in> set m" by (simp add: kept_def)
      then show "normalise ucd (normalise ucd kv) = normalise ucd kv"
        by (intro normalise_idem_ascii asc)
    qed
    then show ?thesis by simp
  qed
  have "\<not> bad_linesearch ?d"
  proof
    assume "bad_linesearch ?d"
    then obtain v where v: "(''LINESEARCH'', v) \<in> set ?d" "\<not> is_null v" "\<not> has_capitalize v"
      by (auto simp: bad_linesearch_def)
    then obtain kv where kv: "kv \<in> set (kept m)" "normalise ucd kv = (''LINESEARCH'', v)"
      by auto
    then have f: "fst kv = ''LINESEARCH''" by (metis fst_conv fst_normalise)
    have "\<not> has_capitalize (snd kv)"
      using v(3) kv(2) by (metis has_capitalize_normalise snd_conv)
    moreover have "\<not> is_null (snd kv)" "kv \<in> set m" using kv(1) by (simp_all add: kept_def)
    ultimately have "bad_linesearch m"
      using f by (auto simp: bad_linesearch_def) (metis prod.collapse)
    with False show False by simp
  qed
  then have "parse_null ucd ?d = Inr (map (normalise ucd) (kept ?d))"
    using distinct_keys_result [OF assms(1)] by (simp add: parse_null_char)
  also have "\<dots> = Inr ?d"
    by (simp only: k n)
  finally show ?thesis using 1 by simp
qed

theorem parse_null_idempotent_witness:
  "distinct (map fst [(''LINESEARCH'', PStr ''bRACKET''), (''NTASK'', PInt 0), (''CASE'', PStr [])]) \<and>
   map_of [(''LINESEARCH'', PStr ''bRACKET''), (''NTASK'', PInt 0), (''CASE'', PStr [])]
     ''LINESEARCH'' = Some (PStr ''bRACKET'') \<and>
   is_ascii ''bRACKET'' \<and>
   parse_null unicode_excerpt [(''LINESEARCH'', PStr ''bRACKET''), (''NTASK'', PInt 0), (''CASE'', PStr [])] =
     Inr [(''LINESEARCH'', PStr ''Bracket''), (''NTASK'', PInt 0)] \<and>
   parse_null unicode_excerpt [(''LINESEARCH'', PStr ''Bracket''), (''NTASK'', PInt 0)] =
     Inr [(''LINESEARCH'', PStr ''Bracket''), (''NTASK'', PInt 0)]"
  using parse_null_idempotent [of "[(''LINESEARCH'', PStr ''bRACKET''), (''NTASK'', PInt 0), (''CASE'', PStr [])]"
      unicode_excerpt]
  by (simp add: parse_null_def case_defs str_capitalize_def is_ascii_def)

text \<open>
  The claim C4 as first stated, for every configuration mapping, fails at a
  \<^verbatim>\<open>LINESEARCH\<close> value that is not ASCII: \<^verbatim>\<open>str.capitalize\<close> turns the letter
  \<^verbatim>\<open>U+0149\<close> into the two characters \<^verbatim>\<open>U+02BC U+004E\<close>, and sanitizing the result
  again lower-cases the \<^verbatim>\<open>N\<close>, so the second result differs from the first.
\<close>

theorem parse_null_idempotent_counterexample:
  "parse_null unicode_excerpt [(''LINESEARCH'', PStr n_apostrophe)] =
     Inr [(''LINESEARCH'', PStr apostrophe_N)] \<and>
   parse_null unicode_excerpt [(''LINESEARCH'', PStr apostrophe_N)] =
     Inr [(''LINESEARCH'', PStr apostrophe_n)] \<and>
   apostrophe_n \<noteq> apostrophe_N"
  by (simp add: parse_null_def excerpt_defs)

lemma map_of_normalise_kept:
  "k \<noteq> ''LINESEARCH'' \<Longrightarrow> map_of m k = Some v \<Longrightarrow> \<not> is_null v \<Longrightarrow>
   map_of (map (normalise ucd) (kept m)) k = Some v"
  by (induction m) (auto simp: kept_def normalise_other split: if_splits)

lemma map_of_normalise_kept_linesearch:
  "map_of m ''LINESEARCH'' = Some (PStr s) \<Longrightarrow> s \<noteq> [] \<Longrightarrow>
   map_of (map (normalise ucd) (kept m)) ''LINESEARCH'' = Some (PStr (str_capitalize ucd s))"
  by (induction m) (auto simp: kept_def is_null_def normalise_other split: if_splits)

lemma kept_keys:
  "map fst (map (normalise ucd) (kept m)) =
   map fst (filter (\<lambda>kv. snd kv \<noteq> PNone \<and> snd kv \<noteq> PStr []) m)"
  by (simp add: kept_def is_null_def o_def)

text \<open>
  Claim C3, as amended. For every configuration mapping on which the sanitizer returns,
  the keys of the result are, in order, exactly the keys whose value is neither
  \<^verbatim>\<open>None\<close> nor the empty string, and every such entry other than the one keyed
  \<^verbatim>\<open>LINESEARCH\<close> is preserved unchanged; that covers the values \<^verbatim>\<open>0\<close>,
  \<^verbatim>\<open>False\<close> and the non-empty strings.
\<close>

theorem parse_null_removes_exactly_nulls:
  assumes "distinct (map fst m)" and "parse_null ucd m = Inr d"
  shows "map fst d = map fst (filter (\<lambda>kv. snd kv \<noteq> PNone \<and> snd kv \<noteq> PStr []) m) \<and>
         (\<forall>k v. k \<noteq> ''LINESEARCH'' \<and> map_of m k = Some v \<and> v \<noteq> PNone \<and> v \<noteq> PStr []
            \<longrightarrow> map_of d k = Some v)"
proof -
  from assms have d: "d = map (normalise ucd) (kept m)"
    by (simp add: parse_null_char split: if_splits)
  have "map fst d = map fst (filter (\<lambda>kv. snd kv \<noteq> PNone \<and> snd kv \<noteq> PStr []) m)"
    unfolding d by (rule kept_keys)
  moreover have "\<forall>k v. k \<noteq> ''LINESEARCH'' \<and> map_of m k = Some v \<and> v \<noteq> PNone \<and> v \<noteq> PStr []
            \<longrightarrow> map_of d k = Some v"
    unfolding d using map_of_normalise_kept [of _ m] by (auto simp: is_null_def)
  ultimately show ?thesis by simp
qed

theorem parse_null_removes_exactly_nulls_witness:
  "distinct (map fst [(''TITLE'', PStr []), (''BEGIN'', PInt 0), (''CASE'', PNone),
       (''SAVETRACES'', PBool False), (''WORKFLOW'', PStr ''inversion'')]) \<and>
   parse_null unicode_excerpt [(''TITLE'', PStr []), (''BEGIN'', PInt 0), (''CASE'', PNone),
       (''SAVETRACES'', PBool False), (''WORKFLOW'', PStr ''inversion'')] =
     Inr [(''BEGIN'', PInt 0), (''SAVETRACES'', PBool False), (''WORKFLOW'', PStr ''inversion'')] \<and>
   map fst [(''BEGIN'', PInt 0), (''SAVETRACES'', PBool False), (''WORKFLOW'', PStr ''inversion'')] =
     [''BEGIN'', ''SAVETRACES'', ''WORKFLOW'']"
  using parse_null_removes_exactly_nulls [of
      "[(''TITLE'', PStr []), (''BEGIN'', PInt 0), (''CASE'', PNone),
       (''SAVETRACES'', PBool False), (''WORKFLOW'', PStr ''inversion'')]"
      unicode_excerpt
      "[(''BEGIN'', PInt 0), (''SAVETRACES'', PBool False), (''WORKFLOW'', PStr ''inversion'')]"]
  by (simp add: parse_null_def)

text \<open>
  The claim as first stated, that every entry which is not removed is preserved
  unchanged, fails at the entry keyed \<^verbatim>\<open>LINESEARCH\<close>: its non-empty string value
  \<^verbatim>\<open>backtrack\<close> is replaced.
\<close>

theorem parse_null_preserves_counterexample:
  "parse_null unicode_excerpt [(''LINESEARCH'', PStr ''backtrack'')] =
     Inr [(''LINESEARCH'', PStr ''Backtrack'')] \<and>
   map_of [(''LINESEARCH'', PStr ''Backtrack'')] ''LINESEARCH'' \<noteq> Some (PStr ''backtrack'')"
  by (simp add: parse_null_def case_defs str_capitalize_def is_ascii_def)

text \<open>
  Claim C7, as amended. For every configuration mapping in which \<^verbatim>\<open>LINESEARCH\<close> maps
  to a non-empty string, the sanitizer returns a mapping in which \<^verbatim>\<open>LINESEARCH\<close> maps
  to \<^verbatim>\<open>str.capitalize\<close> of that string. When the string is ASCII text, that is
  the string with its first character upper-cased and the remainder lower-cased, where
  upper-casing sends each of \<^verbatim>\<open>a\<close> to \<^verbatim>\<open>z\<close> to the capital letter and leaves
  every other character, and lower-casing sends each of \<^verbatim>\<open>A\<close> to \<^verbatim>\<open>Z\<close> to the
  small letter and leaves every other character. The witness is the mapping
  \<^verbatim>\<open>{"LINESEARCH": "bACKTRACK"}\<close>, which yields \<^verbatim>\<open>{"LINESEARCH": "Backtrack"}\<close>,
  as does the instance of the specification, \<^verbatim>\<open>{"LINESEARCH": "backtrack"}\<close>.
\<close>

theorem parse_null_capitalizes_linesearch:
  assumes "distinct (map fst m)" and "map_of m ''LINESEARCH'' = Some (PStr (c # cs))"
  shows "\<exists>d. parse_null ucd m = Inr d \<and>
           map_of d ''LINESEARCH'' = Some (PStr (str_capitalize ucd (c # cs))) \<and>
           (is_ascii (c # cs) \<longrightarrow>
              map_of d ''LINESEARCH'' = Some (PStr (to_upper c # map to_lower cs)) \<and>
              map to_upper lower_letters = upper_letters \<and>
              map to_lower upper_letters = lower_letters \<and>
              (c \<notin> set lower_letters \<longrightarrow> to_upper c = c) \<and>
              (\<forall>x \<in> set cs. x \<notin> set upper_letters \<longrightarrow> to_lower x = x))"
proof -
  have "\<not> bad_linesearch m"
    using assms by (simp add: bad_linesearch_iff)
  then have "parse_null ucd m = Inr (map (normalise ucd) (kept m))"
    using assms(1) by (simp add: parse_null_char)
  then show ?thesis
    using map_of_normalise_kept_linesearch [OF assms(2), of ucd]
    by (simp add: str_capitalize_ascii to_upper_letters to_lower_letters to_upper_other
          to_lower_other)
qed

theorem parse_null_capitalizes_linesearch_witness:
  "distinct (map fst [(''LINESEARCH'', PStr ''bACKTRACK'')]) \<and>
   map_of [(''LINESEARCH'', PStr ''bACKTRACK'')] ''LINESEARCH'' = Some (PStr ''bACKTRACK'') \<and>
   is_ascii ''bACKTRACK'' \<and>
   parse_null unicode_excerpt [(''LINESEARCH'', PStr ''bACKTRACK'')] =
     Inr [(''LINESEARCH'', PStr ''Backtrack'')] \<and>
   parse_null unicode_excerpt [(''LINESEARCH'', PStr ''backtrack'')] =
     Inr [(''LINESEARCH'', PStr ''Backtrack'')]"
  using parse_null_capitalizes_linesearch [of "[(''LINESEARCH'', PStr ''bACKTRACK'')]"
      "CHR ''b''" "''ACKTRACK''" unicode_excerpt]
  by (simp add: parse_null_def case_defs str_capitalize_def is_ascii_def)

text \<open>
  The claim C7 as first stated, for every string, fails at a string that is not ASCII:
  \<^verbatim>\<open>str.capitalize\<close> puts the first character into title case, which is not
  always its upper case. The letter \<^verbatim>\<open>U+00DF\<close> is capitalized to \<^verbatim>\<open>Ss\<close>, while
  its upper case is \<^verbatim>\<open>SS\<close>.
\<close>

theorem parse_null_title_case_counterexample:
  "parse_null unicode_excerpt [(''LINESEARCH'', PStr sharp_s)] =
     Inr [(''LINESEARCH'', PStr ''Ss'')] \<and>
   upper_sharp_s = ''SS'' \<and> ''Ss'' \<noteq> upper_sharp_s"
  by (simp add: parse_null_def excerpt_defs)

text \<open>
  Claim C10, as amended. The sanitizer is partial on the \<^verbatim>\<open>LINESEARCH\<close> values that
  have no method \<^verbatim>\<open>capitalize\<close>: when \<^verbatim>\<open>LINESEARCH\<close> maps to a value that is not
  removed and is neither a string nor a bytes object, the call \<^verbatim>\<open>item.capitalize()\<close>
  raises \<^verbatim>\<open>AttributeError\<close> and no mapping is returned. The sanitizer returns a
  mapping exactly when the value of \<^verbatim>\<open>LINESEARCH\<close>, if there is one, is \<^verbatim>\<open>None\<close>,
  a string or a bytes object.
\<close>

theorem parse_null_raises_on_non_string_linesearch:
  assumes "distinct (map fst m)"
  shows "(\<forall>v. map_of m ''LINESEARCH'' = Some v \<and> v \<noteq> PNone \<and> (\<forall>s. v \<noteq> PStr s) \<and> (\<forall>b. v \<noteq> PBytes b)
            \<longrightarrow> parse_null ucd m = Inl AttributeError) \<and>
         ((\<exists>d. parse_null ucd m = Inr d) =
            (\<forall>v. map_of m ''LINESEARCH'' = Some v
               \<longrightarrow> v = PNone \<or> (\<exists>s. v = PStr s) \<or> (\<exists>b. v = PBytes b)))"
proof -
  show ?thesis
    using assms bad_linesearch_iff [OF assms] by (auto simp: parse_null_char)
qed

theorem parse_null_raises_on_non_string_linesearch_witness:
  "distinct (map fst [(''BEGIN'', PInt 1), (''LINESEARCH'', PInt 0)]) \<and>
   map_of [(''BEGIN'', PInt 1), (''LINESEARCH'', PInt 0)] ''LINESEARCH'' = Some (PInt 0) \<and>
   parse_null unicode_excerpt [(''BEGIN'', PInt 1), (''LINESEARCH'', PInt 0)] = Inl AttributeError"
  using parse_null_raises_on_non_string_linesearch [of "[(''BEGIN'', PInt 1), (''LINESEARCH'', PInt 0)]"
      unicode_excerpt]
  by (simp add: parse_null_def)

text \<open>
  The claim C10 as first stated, that the sanitizer raises on every surviving
  \<^verbatim>\<open>LINESEARCH\<close> value that is not a string, fails at a bytes object: the value
  \<^verbatim>\<open>b'backtrack'\<close> is neither removed nor a string, it has the method, and the
  sanitizer returns a mapping.
\<close>

theorem parse_null_bytes_linesearch_counterexample:
  "parse_null unicode_excerpt [(''LINESEARCH'', PBytes ''backtrack'')] =
     Inr [(''LINESEARCH'', PBytes ''Backtrack'')] \<and>
   PBytes ''backtrack'' \<noteq> PNone \<and> (\<forall>s. PBytes ''backtrack'' \<noteq> PStr s)"
  by (simp add: parse_null_def case_defs)

section \<open>The sanitizer leaves its argument alone\<close>

declare parse_null_iter.simps [simp del]

lemma parse_null_iter_step:
  assumes "p < length h" "q < length h" "p \<noteq> q"
    and eq: "parse_null_iter ucd n i p q h = parse_null_iter ucd n (Suc i) p q (h[q := d'])"
    and loop: "parse_null_loop ucd (drop i (h ! p)) (h ! q) = parse_null_loop ucd (drop (Suc i) (h ! p)) d'"
    and IH: "\<exists>d. snd (parse_null_iter ucd n (Suc i) p q (h[q := d'])) = (h[q := d'])[q := d] \<and>
           parse_null_loop ucd (drop (Suc i) (h[q := d'] ! p)) (h[q := d'] ! q) =
       (case fst (parse_null_iter ucd n (Suc i) p q (h[q := d'])) of Inl e \<Rightarrow> Inl e | Inr u \<Rightarrow> Inr d)"
  shows "\<exists>d. snd (parse_null_iter ucd n i p q h) = h[q := d] \<and>
     parse_null_loop ucd (drop i (h ! p)) (h ! q) =
       (case fst (parse_null_iter ucd n i p q h) of Inl e \<Rightarrow> Inl e | Inr u \<Rightarrow> Inr d)"
proof -
  have 1: "h[q := d'] ! p = h ! p" using assms(3) by simp
  have 2: "h[q := d'] ! q = d'" using assms(2) by simp
  from IH obtain d where
    d: "snd (parse_null_iter ucd n (Suc i) p q (h[q := d'])) = h[q := d]"
       "parse_null_loop ucd (drop (Suc i) (h ! p)) d' =
       (case fst (parse_null_iter ucd n (Suc i) p q (h[q := d'])) of Inl e \<Rightarrow> Inl e | Inr u \<Rightarrow> Inr d)"
    unfolding 1 2 by auto
  show ?thesis
    unfolding eq loop using d by blast
qed

lemma parse_null_iter_refines:
  "p < length h \<Longrightarrow> q < length h \<Longrightarrow> p \<noteq> q \<Longrightarrow> length (h ! p) = n \<Longrightarrow>
   \<exists>d. snd (parse_null_iter ucd n i p q h) = h[q := d] \<and>
     parse_null_loop ucd (drop i (h ! p)) (h ! q) =
       (case fst (parse_null_iter ucd n i p q h) of Inl e \<Rightarrow> Inl e | Inr u \<Rightarrow> Inr d)"
proof (induction ucd n i p q h rule: parse_null_iter.induct)
  case (1 ucd n i p q h)
  note pre = "1.prems"
  show ?case
  proof (cases "n \<le> i")
    case True
    then have "parse_null_iter ucd n i p q h = (Inr (), h)"
      using pre by (simp add: parse_null_iter.simps removal_test_iff)
    moreover have "drop i (h ! p) = []" using True pre by simp
    ultimately show ?thesis
      by (intro exI [of _ "h ! q"]) simp
  next
    case False
    obtain key item where ki: "h ! p ! i = (key, item)" by (cases "h ! p ! i")
    have dr: "drop i (h ! p) = (key, item) # drop (Suc i) (h ! p)"
      using False pre ki by (metis Cons_nth_drop_Suc not_le)
    have len: "\<And>d'. length (h[q := d'] ! p) = n" "\<And>d'. p < length (h[q := d'])"
       "\<And>d'. q < length (h[q := d'])"
      using pre by simp_all
    show ?thesis
    proof (cases "is_null item")
      case True
      note rm = this
      have rmraw: "\<not> truthy item \<and> isinstance_none_str item"
        using rm by (simp add: removal_test_iff)
      show ?thesis
      proof (cases "dict_delitem key (h ! q)")
        case (Inl e)
        then have "parse_null_iter ucd n i p q h = (Inl e, h)"
          using False pre ki rm by (simp add: parse_null_iter.simps removal_test_iff)
        then show ?thesis
          using Inl rm dr by (intro exI [of _ "h ! q"]) (simp add: removal_test_iff)
      next
        case (Inr d')
        have eq: "parse_null_iter ucd n i p q h = parse_null_iter ucd n (Suc i) p q (h[q := d'])"
          using False pre ki rm Inr by (simp add: parse_null_iter.simps removal_test_iff)
        have loop: "parse_null_loop ucd (drop i (h ! p)) (h ! q) = parse_null_loop ucd (drop (Suc i) (h ! p)) d'"
          using dr rm Inr by (simp add: removal_test_iff)
        show ?thesis
          using "1.IH"(1) [OF _ False ki [symmetric] rmraw Inr len(2) len(3) pre(3) len(1)] pre(4)
          by (intro parse_null_iter_step [OF pre(1,2,3) eq loop]) simp
      qed
    next
      case False
      note keep = this
      have keepraw: "\<not> (\<not> truthy item \<and> isinstance_none_str item)"
        using keep by (simp add: removal_test_iff)
      show ?thesis
      proof (cases "key = ''LINESEARCH''")
        case True
        show ?thesis
        proof (cases "call_capitalize ucd item")
          case (Inl e)
          then have "parse_null_iter ucd n i p q h = (Inl e, h)"
            using \<open>\<not> n \<le> i\<close> pre ki keep True by (simp add: parse_null_iter.simps removal_test_iff)
          then show ?thesis
            using Inl keep True dr by (intro exI [of _ "h ! q"]) (simp add: removal_test_iff)
        next
          case (Inr v)
          let ?d = "dict_setitem key v (h ! q)"
          have eq: "parse_null_iter ucd n i p q h = parse_null_iter ucd n (Suc i) p q (h[q := ?d])"
            using \<open>\<not> n \<le> i\<close> pre ki keep True Inr by (simp add: parse_null_iter.simps removal_test_iff)
          have loop: "parse_null_loop ucd (drop i (h ! p)) (h ! q) = parse_null_loop ucd (drop (Suc i) (h ! p)) ?d"
            using dr keep True Inr by (simp add: removal_test_iff)
          show ?thesis
            using "1.IH"(2) [OF _ \<open>\<not> n \<le> i\<close> ki [symmetric] keepraw True Inr len(2) len(3) pre(3) len(1)] pre(4)
            by (intro parse_null_iter_step [OF pre(1,2,3) eq loop]) simp
        qed
      next
        case False
        have eq: "parse_null_iter ucd n i p q h = parse_null_iter ucd n (Suc i) p q h"
          using \<open>\<not> n \<le> i\<close> pre ki keep False by (simp add: parse_null_iter.simps removal_test_iff)
        have loop: "parse_null_loop ucd (drop i (h ! p)) (h ! q) = parse_null_loop ucd (drop (Suc i) (h ! p)) (h ! q)"
          using dr keep False by (simp add: removal_test_iff)
        have "\<exists>d. snd (parse_null_iter ucd n (Suc i) p q h) = h[q := d] \<and>
             parse_null_loop ucd (drop (Suc i) (h ! p)) (h ! q) =
       (case fst (parse_null_iter ucd n (Suc i) p q h) of Inl e \<Rightarrow> Inl e | Inr u \<Rightarrow> Inr d)"
          using "1.IH"(3) [OF _ \<open>\<not> n \<le> i\<close> ki [symmetric] keepraw False pre(1,2,3)] pre(4) by simp
        then show ?thesis
          unfolding eq loop .
      qed
    qed
  qed
qed

text \<open>
  Claim C9. The sanitizer does not mutate its input: after the call, every object that
  was in the store before it, the argument \<^verbatim>\<open>parameters\<close> among them, is unchanged;
  the mapping returned is a new object at a new address, and it holds what the sanitizer
  computes from the entries of the argument.
\<close>

theorem parse_null_does_not_mutate_input:
  assumes "parameters < length h"
  shows "take (length h) (snd (parse_null_st ucd parameters h)) = h \<and>
         snd (parse_null_st ucd parameters h) ! parameters = h ! parameters \<and>
         (case fst (parse_null_st ucd parameters h) of
            Inl e \<Rightarrow> parse_null ucd (h ! parameters) = Inl e
          | Inr parsed \<Rightarrow> parsed = length h \<and> parsed \<noteq> parameters \<and>
              parse_null ucd (h ! parameters) = Inr (snd (parse_null_st ucd parameters h) ! parsed))"
proof -
  let ?h1 = "h @ [h ! parameters]"
  let ?q = "length h"
  let ?n = "length (h ! parameters)"
  have a: "parameters < length ?h1" "?q < length ?h1" "parameters \<noteq> ?q"
      "length (?h1 ! parameters) = ?n" "?h1 ! parameters = h ! parameters" "?h1 ! ?q = h ! parameters"
    using assms by (simp_all add: nth_append)
  have "\<exists>d. snd (parse_null_iter ucd ?n 0 parameters ?q ?h1) = ?h1[?q := d] \<and>
     parse_null ucd (h ! parameters) =
       (case fst (parse_null_iter ucd ?n 0 parameters ?q ?h1) of Inl e \<Rightarrow> Inl e | Inr u \<Rightarrow> Inr d)"
    using parse_null_iter_refines [OF a(1,2,3,4), of ucd 0] by (simp add: a(5,6) parse_null_def)
  then obtain d where d: "snd (parse_null_iter ucd ?n 0 parameters ?q ?h1) = ?h1[?q := d]"
     "parse_null ucd (h ! parameters) =
       (case fst (parse_null_iter ucd ?n 0 parameters ?q ?h1) of Inl e \<Rightarrow> Inl e | Inr u \<Rightarrow> Inr d)"
    by blast
  obtain r h2 where r: "parse_null_iter ucd ?n 0 parameters ?q ?h1 = (r, h2)"
    by (cases "parse_null_iter ucd ?n 0 parameters ?q ?h1")
  have h2: "h2 = h @ [d]" using d(1) r by simp
  show ?thesis
  proof (cases r)
    case (Inl e)
    then have "parse_null_st ucd parameters h = (Inl e, h @ [d])"
      using r h2 a(4) by (simp add: parse_null_st_def heap_alloc_def)
    then show ?thesis using d(2) r Inl assms by (simp add: nth_append)
  next
    case (Inr u)
    then have "parse_null_st ucd parameters h = (Inr ?q, h @ [d])"
      using r h2 a(4) by (simp add: parse_null_st_def heap_alloc_def)
    then show ?thesis using d(2) r Inr assms by (simp add: nth_append)
  qed
qed

theorem parse_null_does_not_mutate_input_witness:
  "(0::nat) < length [[(''TITLE'', PNone), (''LINESEARCH'', PStr ''bracket''), (''NTASK'', PInt 0)]] \<and>
   parse_null_st unicode_excerpt 0 [[(''TITLE'', PNone), (''LINESEARCH'', PStr ''bracket''), (''NTASK'', PInt 0)]] =
     (Inr 1, [[(''TITLE'', PNone), (''LINESEARCH'', PStr ''bracket''), (''NTASK'', PInt 0)],
              [(''LINESEARCH'', PStr ''Bracket''), (''NTASK'', PInt 0)]])"
  using parse_null_does_not_mutate_input [of 0 "[[(''TITLE'', PNone), (''LINESEARCH'', PStr ''bracket''), (''NTASK'', PInt 0)]]"
      unicode_excerpt]
  by (simp add: parse_null_st_def heap_alloc_def parse_null_iter.simps case_defs str_capitalize_def
        is_ascii_def)

section \<open>Properties of the path resolution\<close>

lemmas path_defs = sep_def isabs_def endswith_sep_def join_step_def path_join_def
  initial_slashes_def norm_step_def normpath_comps_def normpath_def abs_full_def abspath_def
  expand_home_def

lemma normpath_nonempty: "normpath path \<noteq> []"
  by (simp add: normpath_def Let_def)

lemma abspath_nonempty: "abspath cw path \<noteq> []"
  by (simp add: abspath_def normpath_nonempty)

lemma initial_slashes_pos: "isabs path \<Longrightarrow> 0 < initial_slashes path"
  by (simp add: initial_slashes_def)

lemma isabs_normpath: "isabs path \<Longrightarrow> isabs (normpath path)"
proof -
  assume a: "isabs path"
  then obtain n where n: "initial_slashes path = Suc n"
    using initial_slashes_pos [OF a] by (cases "initial_slashes path") auto
  from a have "path \<noteq> []" by (auto simp: isabs_def)
  then show ?thesis by (simp add: normpath_def Let_def n isabs_def)
qed

lemma isabs_abs_full: "isabs cw \<Longrightarrow> isabs (abs_full cw path)"
  by (cases cw) (auto simp: abs_full_def path_join_def join_step_def isabs_def split: list.splits)

lemma isabs_abspath: "isabs cw \<Longrightarrow> isabs (abspath cw path)"
  by (simp add: abspath_def isabs_normpath isabs_abs_full)

lemma tilde_expand_values:
  "tilde_expand hm d = Inr r \<Longrightarrow> map fst r = map fst d \<and>
     (\<forall>i < length d. \<exists>val. snd (d ! i) = PStr val \<and> snd (r ! i) = expand_home hm val)"
proof (induction hm d arbitrary: r rule: tilde_expand.induct)
  case (1 hm)
  then show ?case by simp
next
  case (2 hm key val d)
  then obtain r' where r': "tilde_expand hm d = Inr r'" "r = (key, expand_home hm val) # r'"
    by (auto split: sum.splits)
  from "2.IH" [OF r'(1)] show ?case
    unfolding r'(2) by (auto simp: nth_Cons split: nat.splits)
qed simp_all

lemma resolve_paths_values:
  assumes "resolve_paths cw hm parameters = Inr paths" and "(k, v) \<in> set paths"
  shows "v \<noteq> [] \<and> (isabs cw \<longrightarrow> isabs v)"
proof -
  from assms(1) obtain r where "paths = map (\<lambda>(key, path). (key, abspath cw path)) r"
    by (auto simp: resolve_paths_def split: sum.splits pyval.splits)
  with assms(2) obtain p where "v = abspath cw p" by auto
  then show ?thesis by (simp add: abspath_nonempty isabs_abspath)
qed

text \<open>
  Claim C2. Path resolution expands the home-directory shorthand and makes every value
  absolute, and the claim adds that a value that is the empty string remains the empty
  string. The code does not keep it: \<^verbatim>\<open>os.path.abspath('')\<close> is the working
  directory, so the unused path \<^verbatim>\<open>DATA\<close> of this mapping is resolved to
  \<^verbatim>\<open>/hm/u/run\<close>, while \<^verbatim>\<open>submit\<close> still tests the resolved paths against the
  empty string. By \<open>resolve_paths_values\<close> no resolved value is ever empty.
\<close>

theorem setup_resolves_empty_path_to_cwd:
  "resolve_paths ''/hm/u/run'' ''/hm/u''
     [(''PATHS'', PDict [(''DATA'', PStr []), (''MODEL'', PStr ''~/model'')])] =
   Inr [(''DATA'', ''/hm/u/run''), (''MODEL'', ''/hm/u/model'')]"
  by (simp add: resolve_paths_def dict_getitem_def path_defs)

section \<open>Properties of the lifecycle operations\<close>

lemma precheck_parameters_frame:
  "fs (snd (precheck_parameters par w)) = fs w \<and> cwd (snd (precheck_parameters par w)) = cwd w \<and>
   home (snd (precheck_parameters par w)) = home w \<and>
   arg_run (snd (precheck_parameters par w)) = arg_run w \<and>
   arg_workdir (snd (precheck_parameters par w)) = arg_workdir w \<and>
   arg_parameter_file (snd (precheck_parameters par w)) = arg_parameter_file w \<and>
   modules (snd (precheck_parameters par w)) = modules w \<and>
   unicode (snd (precheck_parameters par w)) = unicode w"
  by (auto simp: precheck_parameters_def py_input_def split: sum.splits list.splits)

lemma setup_fn_frame:
  "fs (snd (setup_fn p w)) = fs w \<and> cwd (snd (setup_fn p w)) = cwd w \<and>
   home (snd (setup_fn p w)) = home w \<and> arg_run (snd (setup_fn p w)) = arg_run w \<and>
   arg_workdir (snd (setup_fn p w)) = arg_workdir w \<and>
   arg_parameter_file (snd (setup_fn p w)) = arg_parameter_file w \<and>
   unicode (snd (setup_fn p w)) = unicode w"
proof (cases "path_exists w (parameter_file (get_args w))")
  case False
  then show ?thesis by (simp add: setup_fn_def Let_def)
next
  case True
  show ?thesis
  proof (cases "loadyaml (parameter_file (get_args w)) w")
    case (Inl e)
    then show ?thesis using True by (simp add: setup_fn_def Let_def)
  next
    case (Inr par0)
    obtain r w1 where pc: "(if p then precheck_parameters par0 w else (Inr (), w)) = (r, w1)"
      by (cases "if p then precheck_parameters par0 w else (Inr (), w)")
    have "w1 = snd (if p then precheck_parameters par0 w else (Inr (), w))"
      using pc by simp
    then have f1: "fs w1 = fs w" "cwd w1 = cwd w" "home w1 = home w" "arg_run w1 = arg_run w"
      "arg_workdir w1 = arg_workdir w" "arg_parameter_file w1 = arg_parameter_file w"
      "unicode w1 = unicode w"
      using precheck_parameters_frame [of par0 w] by (simp_all split: if_splits)
    show ?thesis
      using True Inr pc f1
      by (auto simp: setup_fn_def Let_def set_module_def split: sum.splits)
  qed
qed

lemma setup_fn_modules:
  "fst (setup_fn p w) = Inr (a, paths, parameters) \<Longrightarrow>
   modules (snd (setup_fn p w)) =
     dict_setitem ''seisflows_paths'' (PathObj paths)
       (dict_setitem ''seisflows_parameters'' (ParObj parameters) (modules w))"
proof (cases "path_exists w (parameter_file (get_args w))")
  case False
  assume "fst (setup_fn p w) = Inr (a, paths, parameters)"
  with False show ?thesis by (simp add: setup_fn_def Let_def)
next
  case True
  assume ok: "fst (setup_fn p w) = Inr (a, paths, parameters)"
  show ?thesis
  proof (cases "loadyaml (parameter_file (get_args w)) w")
    case (Inl e)
    then show ?thesis using True ok by (simp add: setup_fn_def Let_def)
  next
    case (Inr par0)
    obtain r w1 where pc: "(if p then precheck_parameters par0 w else (Inr (), w)) = (r, w1)"
      by (cases "if p then precheck_parameters par0 w else (Inr (), w)")
    have "w1 = snd (if p then precheck_parameters par0 w else (Inr (), w))"
      using pc by simp
    then have f1: "modules w1 = modules w"
      using precheck_parameters_frame [of par0 w] by (simp split: if_splits)
    show ?thesis
      using True Inr pc f1 ok
      by (auto simp: setup_fn_def Let_def set_module_def split: sum.splits)
  qed
qed

lemma setup_fn_args: "fst (setup_fn p w) = Inr (a, paths, parameters) \<Longrightarrow> a = get_args w"
  by (simp add: setup_fn_def Let_def split: sum.splits prod.splits if_splits)

lemma py_print_frame:
  "fs (py_print s w) = fs w" "cwd (py_print s w) = cwd w" "modules (py_print s w) = modules w"
  "events (py_print s w) = events w @ [Print s]"
  by (simp_all add: py_print_def)

lemma foldl_print_events:
  "events (foldl (\<lambda>w' path'. py_print (tab # path') w') w missing) =
     events w @ map (\<lambda>path'. Print (tab # path')) missing"
  by (induction missing arbitrary: w) (simp_all add: py_print_def)

lemma foldl_print_frame:
  "fs (foldl (\<lambda>w' path'. py_print (tab # path') w') w missing) = fs w \<and>
   cwd (foldl (\<lambda>w' path'. py_print (tab # path') w') w missing) = cwd w \<and>
   modules (foldl (\<lambda>w' path'. py_print (tab # path') w') w missing) = modules w"
  by (induction missing arbitrary: w) (simp_all add: py_print_def)

lemma print_missing_frame:
  "fs (print_missing missing w) = fs w \<and> cwd (print_missing missing w) = cwd w \<and>
   modules (print_missing missing w) = modules w \<and>
   events (print_missing missing w) =
     events w @ Print (nl # ''The following paths do not exist:'' @ [nl])
       # map (\<lambda>path'. Print (tab # path')) missing @ [Print [nl]]"
  by (simp add: print_missing_def foldl_print_events foldl_print_frame py_print_frame)

lemma paths_dont_exist_filter:
  "paths_dont_exist w paths =
     map snd (filter (\<lambda>(key, path). key \<noteq> ''OUTPUT'' \<and> key \<noteq> ''SCRATCH'' \<and> path \<noteq> []
                         \<and> \<not> path_exists w path) paths)"
  by (induction w paths rule: paths_dont_exist.induct) auto

text \<open>
  Claim C6, as amended. When the common set-up of \<^verbatim>\<open>submit\<close> has succeeded (the
  parameter file exists and loads, the summary is confirmed, the sanitizer and the
  path resolution return) and some resolved path whose key is neither \<^verbatim>\<open>OUTPUT\<close>
  nor \<^verbatim>\<open>SCRATCH\<close>, and which is not empty, does not exist, \<^verbatim>\<open>submit\<close> prints
  the heading, every such path in the order of the mapping and a closing line, and
  exits. It does so before the working directory is created or entered (the file
  system and the working directory are as before the call) and before \<^verbatim>\<open>config\<close>
  constructs the module of any role: the registry is the one before the call with the
  two entries that the set-up registers, the parameters and the paths, and nothing else
  is added.
\<close>

theorem submit_aborts_on_missing_paths:
  assumes "fst (setup_fn True w) = Inr (a, paths, parameters)"
    and "paths_dont_exist (snd (setup_fn True w)) paths \<noteq> []"
  shows "fst (submit new_module names w) = Inl (SystemExit None) \<and>
         events (snd (submit new_module names w)) =
           events (snd (setup_fn True w))
             @ Print (nl # ''The following paths do not exist:'' @ [nl])
             # map (\<lambda>path'. Print (tab # path'))
                 (map snd (filter (\<lambda>(key, path). key \<noteq> ''OUTPUT'' \<and> key \<noteq> ''SCRATCH'' \<and> path \<noteq> []
                         \<and> \<not> path_exists (snd (setup_fn True w)) path) paths))
             @ [Print [nl]] \<and>
         fs (snd (submit new_module names w)) = fs w \<and>
         cwd (snd (submit new_module names w)) = cwd w \<and>
         modules (snd (submit new_module names w)) =
           dict_setitem ''seisflows_paths'' (PathObj paths)
             (dict_setitem ''seisflows_parameters'' (ParObj parameters) (modules w))"
proof -
  obtain w1 where s: "setup_fn True w = (Inr (a, paths, parameters), w1)"
    using assms(1) by (cases "setup_fn True w") auto
  have w1: "w1 = snd (setup_fn True w)" using s by simp
  have sub: "submit new_module names w =
      (Inl (SystemExit None), print_missing (paths_dont_exist w1 paths) w1)"
    using assms(2) s by (simp add: submit_def)
  show ?thesis
    unfolding sub using setup_fn_frame [of True w] setup_fn_modules [OF assms(1)]
    by (simp add: print_missing_frame w1 [symmetric] paths_dont_exist_filter)
qed

lemmas example_defs = example_world_def example_fs_def example_parameters_def example_new_module_def
lemmas world_defs = get_args_def getcwd_def path_exists_def fs_lookup_def resolve_def is_dir_def
  loadyaml_def loadobj_def
  py_input_def py_print_def set_module_def unix_rm_def unix_mkdir_def unix_cd_def is_under_def
  dict_getitem_def get_module_def
lemmas life_defs = setup_fn_def precheck_parameters_def precheck_keys_def parse_null_def
  registry_name_def checkpoint_file_def
  resolve_paths_def submit_def resume_def print_missing_def call_check_def system_submit_def

theorem submit_aborts_on_missing_paths_witness:
  "fst (setup_fn True ((example_world Submit [''y''])\<lparr>home := ''/home/v''\<rparr>)) =
     Inr (\<lparr>run = Some Submit, workdir = ''/home/u/run'', parameter_file = ''parameters.yaml''\<rparr>,
          [(''DATA'', ''/home/u/run''), (''MODEL'', ''/home/v/model''), (''OUTPUT'', ''/home/u/run/output'')],
          filter (\<lambda>kv. snd kv \<noteq> PNone) example_parameters) \<and>
   paths_dont_exist (snd (setup_fn True ((example_world Submit [''y''])\<lparr>home := ''/home/v''\<rparr>)))
     [(''DATA'', ''/home/u/run''), (''MODEL'', ''/home/v/model''), (''OUTPUT'', ''/home/u/run/output'')]
     = [''/home/v/model''] \<and>
   fst (submit example_new_module [''system'', ''workflow'']
          ((example_world Submit [''y''])\<lparr>home := ''/home/v''\<rparr>)) = Inl (SystemExit None) \<and>
   fs (snd (submit example_new_module [''system'', ''workflow'']
          ((example_world Submit [''y''])\<lparr>home := ''/home/v''\<rparr>))) = example_fs"
  using submit_aborts_on_missing_paths [of "(example_world Submit [''y''])\<lparr>home := ''/home/v''\<rparr>"
      "\<lparr>run = Some Submit, workdir = ''/home/u/run'', parameter_file = ''parameters.yaml''\<rparr>"
      "[(''DATA'', ''/home/u/run''), (''MODEL'', ''/home/v/model''), (''OUTPUT'', ''/home/u/run/output'')]"
      "filter (\<lambda>kv. snd kv \<noteq> PNone) example_parameters"
      example_new_module "[''system'', ''workflow'']"]
  by (simp add: example_defs world_defs life_defs path_defs Let_def)

text \<open>
  The claim C6 as first stated, for every fresh start with a required path that does
  not exist, fails when the set-up does not complete. Here the path \<^verbatim>\<open>MODEL\<close> of
  the parameter file, \<^verbatim>\<open>~/model\<close> with the home directory \<^verbatim>\<open>/home/v\<close>, does
  not exist, and the user declines the summary: \<^verbatim>\<open>submit\<close> exits with status
  \<^verbatim>\<open>-1\<close> from \<^verbatim>\<open>precheck_parameters\<close> and prints no list of paths. And when
  the set-up completes, as in the witness above, the entries of the parameters and of
  the paths, two of the Module Handles of the specification, are in the registry
  before the exit.
\<close>

theorem submit_declined_summary_counterexample:
  "fs_lookup ((example_world Submit [''n''])\<lparr>home := ''/home/v''\<rparr>) ''parameters.yaml'' =
     Some (File (Yaml example_parameters)) \<and>
   map_of example_parameters ''PATHS'' =
     Some (PDict [(''DATA'', PStr []), (''MODEL'', PStr ''~/model''), (''OUTPUT'', PStr ''output'')]) \<and>
   abspath (getcwd ((example_world Submit [''n''])\<lparr>home := ''/home/v''\<rparr>))
     (expand_home ''/home/v'' ''~/model'') = ''/home/v/model'' \<and>
   \<not> path_exists ((example_world Submit [''n''])\<lparr>home := ''/home/v''\<rparr>) ''/home/v/model'' \<and>
   fst (submit example_new_module [''system'', ''workflow'']
          ((example_world Submit [''n''])\<lparr>home := ''/home/v''\<rparr>)) = Inl (SystemExit (Some (- 1))) \<and>
   events (snd (submit example_new_module [''system'', ''workflow'']
          ((example_world Submit [''n''])\<lparr>home := ''/home/v''\<rparr>))) =
     [PrintSummary (map snd (take 11 example_parameters)), Prompt ''Continue? (y/[n]): ''] \<and>
   fst (setup_fn True ((example_world Submit [''y''])\<lparr>home := ''/home/v''\<rparr>)) =
     Inr (\<lparr>run = Some Submit, workdir = ''/home/u/run'', parameter_file = ''parameters.yaml''\<rparr>,
          [(''DATA'', ''/home/u/run''), (''MODEL'', ''/home/v/model''), (''OUTPUT'', ''/home/u/run/output'')],
          filter (\<lambda>kv. snd kv \<noteq> PNone) example_parameters) \<and>
   map fst (modules (snd (submit example_new_module [''system'', ''workflow'']
          ((example_world Submit [''y''])\<lparr>home := ''/home/v''\<rparr>)))) =
     [''seisflows_parameters'', ''seisflows_paths'']"
  by (simp add: example_defs world_defs life_defs path_defs Let_def)

text \<open>
  Claim C5. A declined prompt is to end the operation with no further lifecycle step,
  \<^verbatim>\<open>restart\<close> included. \<^verbatim>\<open>precheck_parameters\<close> exits on any answer but
  \<^verbatim>\<open>y\<close>, and a declined \<^verbatim>\<open>clean\<close> removes nothing; but \<^verbatim>\<open>clean\<close> returns
  normally when declined, and \<^verbatim>\<open>main\<close> calls \<^verbatim>\<open>submit\<close> after it whatever the
  answer was. Here \<^verbatim>\<open>restart -w /home/u/run2\<close> is answered \<^verbatim>\<open>n\<close> at the clean
  prompt and \<^verbatim>\<open>y\<close> at the summary: the fresh start runs, creates the working
  directory and invokes the workflow driver.
\<close>

theorem restart_proceeds_after_declined_clean:
  "fst (main example_new_module [''system'', ''workflow'']
          ((example_world Restart [''n'', ''y''])\<lparr>arg_workdir := Some ''/home/u/run2''\<rparr>)) = Inr () \<and>
   fs (snd (main example_new_module [''system'', ''workflow'']
          ((example_world Restart [''n'', ''y''])\<lparr>arg_workdir := Some ''/home/u/run2''\<rparr>))) =
     example_fs @ [([''home'', ''u'', ''run2''], Dir)] \<and>
   events (snd (main example_new_module [''system'', ''workflow'']
          ((example_world Restart [''n'', ''y''])\<lparr>arg_workdir := Some ''/home/u/run2''\<rparr>))) =
     [Prompt clean_prompt,
      PrintSummary (map snd (take 11 example_parameters)),
      Prompt ''Continue? (y/[n]): '',
      DriverSubmit (Instance ''system'' True) (Instance ''workflow'' True)]"
  by (simp add: main_def clean_def example_defs world_defs life_defs path_defs Let_def)

subsection \<open>Resume\<close>

lemma resolve_cong: "cwd w' = cwd w \<Longrightarrow> fs w' = fs w \<Longrightarrow> resolve w' p = resolve w p"
  by (simp add: resolve_def)

lemma fs_lookup_cong:
  assumes "cwd w' = cwd w" and "fs w' = fs w"
  shows "fs_lookup w' p = fs_lookup w p"
  unfolding fs_lookup_def resolve_cong [OF assms] assms(2) by (rule refl)

lemma fs_lookup_set_module [simp]: "fs_lookup (set_module n obj w) p = fs_lookup w p"
  by (rule fs_lookup_cong) (simp_all add: set_module_def)

lemma loadobj_set_module [simp]: "loadobj f (set_module n obj w) = loadobj f w"
  by (simp add: loadobj_def)

lemma module_name_inj [simp]: "(registry_name a = registry_name b) = (a = b)"
  by (simp add: registry_name_def)

lemma load_into_set_module:
  "load_into wd (set_module k obj w) m ns = load_into wd w m ns"
  by (induction ns arbitrary: m) (simp_all split: sum.splits)

lemma load_loop_stops:
  assumes "\<forall>n \<in> set pre. \<exists>obj. loadobj (checkpoint_file wd n) w = Inr obj"
    and "loadobj (checkpoint_file wd name) w = Inl e"
  shows "load_loop wd (pre @ name # post) w = (Inl e, w\<lparr>modules := loaded_modules wd w pre\<rparr>)"
  using assms
proof (induction pre arbitrary: w)
  case Nil
  then show ?case by (simp add: loaded_modules_def)
next
  case (Cons n pre)
  from Cons.prems(1) obtain obj where obj: "loadobj (checkpoint_file wd n) w = Inr obj"
    by auto
  let ?w = "set_module (registry_name n) obj w"
  have "load_loop wd (pre @ name # post) ?w = (Inl e, ?w\<lparr>modules := loaded_modules wd ?w pre\<rparr>)"
    using Cons.prems by (intro Cons.IH) simp_all
  moreover have "loaded_modules wd ?w pre = loaded_modules wd w (n # pre)"
    using obj by (simp add: loaded_modules_def load_into_set_module) (simp add: set_module_def)
  moreover have "\<And>X. ?w\<lparr>modules := X\<rparr> = w\<lparr>modules := X\<rparr>"
    by (simp add: set_module_def)
  ultimately show ?case using obj by simp
qed

lemma map_of_dict_setitem: "map_of (dict_setitem k v d) = (map_of d)(k \<mapsto> v)"
  by (induction d) (auto simp: fun_eq_iff)

lemma load_into_other_key:
  "k \<notin> registry_name ` set ns \<Longrightarrow> map_of (load_into wd w m ns) k = map_of m k"
  by (induction ns arbitrary: m) (auto simp: map_of_dict_setitem split: sum.splits)

lemma load_into_other:
  "n \<notin> set ns \<Longrightarrow> map_of (load_into wd w m ns) (registry_name n) = map_of m (registry_name n)"
  by (rule load_into_other_key) auto

lemma load_into_loaded:
  "n \<in> set ns \<Longrightarrow> loadobj (checkpoint_file wd n) w = Inr obj \<Longrightarrow>
   map_of (load_into wd w m ns) (registry_name n) = Some obj"
proof (induction ns arbitrary: m)
  case Nil
  then show ?case by simp
next
  case (Cons x ns)
  show ?case
  proof (cases "n \<in> set ns")
    case True
    then show ?thesis using Cons by (simp split: sum.splits)
  next
    case False
    then have "n = x" using Cons.prems(1) by simp
    then show ?thesis
      using False Cons.prems(2) by (simp add: load_into_other map_of_dict_setitem)
  qed
qed

lemma loaded_modules_other:
  "k \<notin> registry_name ` set pre \<Longrightarrow>
   map_of (loaded_modules wd w pre) k = map_of (modules w) k"
  by (simp add: loaded_modules_def load_into_other_key)

lemma loaded_modules_loaded:
  "n \<in> set pre \<Longrightarrow> loadobj (checkpoint_file wd n) w = Inr obj \<Longrightarrow>
   map_of (loaded_modules wd w pre) (registry_name n) = Some obj"
  by (simp add: loaded_modules_def load_into_loaded)

lemma unix_cd_frame:
  "fs (snd (unix_cd p w)) = fs w \<and> events (snd (unix_cd p w)) = events w \<and>
   modules (snd (unix_cd p w)) = modules w"
  by (simp add: unix_cd_def split: option.splits node.splits)

text \<open>
  Claim C1, as amended. When the set-up and the change to the working directory have
  succeeded, the roles enumerated before \<open>name\<close> have checkpoints that load, and the
  Checkpoint Record of \<open>name\<close> is missing, \<^verbatim>\<open>resume\<close> fails with
  \<^verbatim>\<open>CheckpointMissing\<close> for that record: no \<^verbatim>\<open>check\<close> is run, the workflow driver
  is not invoked (the events are those of the set-up) and the file system is unchanged.
  The registry has then been populated in part: every role enumerated before \<open>name\<close>
  holds the instance loaded from its checkpoint, the set-up has registered the
  parameters and the paths, and every other entry of the registry is what it was before
  this resume.
\<close>

theorem resume_fails_at_first_missing_checkpoint:
  assumes "fst (setup_fn True w) = Inr (a, paths, parameters)"
    and "fst (unix_cd (workdir a) (snd (setup_fn True w))) = Inr ()"
    and "\<forall>n \<in> set pre. \<exists>obj. loadobj (checkpoint_file (workdir a) n) (resume_start w) = Inr obj"
    and "fs_lookup (resume_start w) (checkpoint_file (workdir a) name) = None"
  shows "fst (resume (pre @ name # post) w) =
           Inl (CheckpointMissing (checkpoint_file (workdir a) name)) \<and>
         events (snd (resume (pre @ name # post) w)) = events (snd (setup_fn True w)) \<and>
         fs (snd (resume (pre @ name # post) w)) = fs w \<and>
         (\<forall>n obj. n \<in> set pre \<and> loadobj (checkpoint_file (workdir a) n) (resume_start w) = Inr obj
            \<longrightarrow> map_of (modules (snd (resume (pre @ name # post) w))) (registry_name n) = Some obj) \<and>
         (\<forall>k. k \<notin> registry_name ` set pre
            \<longrightarrow> map_of (modules (snd (resume (pre @ name # post) w))) k =
                ((map_of (modules w))(''seisflows_parameters'' \<mapsto> ParObj parameters,
                                      ''seisflows_paths'' \<mapsto> PathObj paths)) k)"
proof -
  obtain w1 where s: "setup_fn True w = (Inr (a, paths, parameters), w1)"
    using assms(1) by (cases "setup_fn True w") auto
  obtain w2 where cd: "unix_cd (workdir a) w1 = (Inr (), w2)"
    using assms(2) s by (cases "unix_cd (workdir a) w1") auto
  have a: "a = get_args w" using assms(1) by (rule setup_fn_args)
  have w2: "resume_start w = w2" using s cd a by (simp add: resume_start_def)
  have w1: "snd (setup_fn True w) = w1" using s by simp
  have fr: "fs w2 = fs w" "events w2 = events w1" "modules w2 = modules w1"
    using unix_cd_frame [of "workdir a" w1] setup_fn_frame [of True w] cd w1 by simp_all
  have m1: "map_of (modules w1) =
      (map_of (modules w))(''seisflows_parameters'' \<mapsto> ParObj parameters,
                            ''seisflows_paths'' \<mapsto> PathObj paths)"
    using setup_fn_modules [OF assms(1)] w1 by (simp add: map_of_dict_setitem)
  have miss: "loadobj (checkpoint_file (workdir a) name) w2 =
      Inl (CheckpointMissing (checkpoint_file (workdir a) name))"
    using assms(4) w2 by (simp add: loadobj_def)
  have ll: "load_loop (workdir a) (pre @ name # post) w2 =
      (Inl (CheckpointMissing (checkpoint_file (workdir a) name)),
       w2\<lparr>modules := loaded_modules (workdir a) w2 pre\<rparr>)"
    using assms(3) miss unfolding w2 by (rule load_loop_stops)
  have r: "resume (pre @ name # post) w =
      (Inl (CheckpointMissing (checkpoint_file (workdir a) name)),
       w2\<lparr>modules := loaded_modules (workdir a) w2 pre\<rparr>)"
    using s cd ll by (simp add: resume_def)
  have other: "\<forall>k. k \<notin> registry_name ` set pre
            \<longrightarrow> map_of (loaded_modules (workdir a) w2 pre) k =
                ((map_of (modules w))(''seisflows_parameters'' \<mapsto> ParObj parameters,
                                      ''seisflows_paths'' \<mapsto> PathObj paths)) k"
    using loaded_modules_other [of _ pre "workdir a" w2] fr(3) m1 by simp
  show ?thesis
    unfolding r w1 w2 using fr other loaded_modules_loaded [of _ pre "workdir a" w2]
    by simp
qed


lemma example_setup:
  "setup_fn True (example_world task (''y'' # answers)) =
     (Inr (\<lparr>run = Some task, workdir = ''/home/u/run'', parameter_file = ''parameters.yaml''\<rparr>,
           example_paths, example_sanitized),
      example_after_setup task answers)"
  by (simp add: example_defs world_defs life_defs path_defs Let_def example_paths_def
        example_sanitized_def example_after_setup_def)

lemma example_cd:
  "unix_cd ''/home/u/run'' (example_after_setup task answers) = (Inr (), example_after_setup task answers)"
  by (simp add: example_after_setup_def example_world_def example_fs_def world_defs path_defs)

lemma example_resume_start:
  "resume_start (example_world task (''y'' # answers)) = example_after_setup task answers"
  by (simp add: resume_start_def get_args_def example_setup example_cd)
     (simp add: example_world_def getcwd_def sep_def example_cd)

lemma example_loadobj_system:
  "loadobj (checkpoint_file ''/home/u/run'' ''system'') (example_after_setup task answers) =
     Inr (Instance ''system state'' True)"
  by (simp add: example_after_setup_def example_world_def example_fs_def world_defs path_defs
        checkpoint_file_def)

lemma example_lookup_workflow:
  "fs_lookup (example_after_setup task answers) (checkpoint_file ''/home/u/run'' ''workflow'') = None"
  by (simp add: example_after_setup_def example_world_def example_fs_def world_defs path_defs
        checkpoint_file_def)

lemma example_loadobj_workflow:
  "loadobj (checkpoint_file ''/home/u/run'' ''workflow'') (example_after_setup task answers) =
     Inl (CheckpointMissing ''/home/u/run/output/seisflows_workflow.p'')"
  by (simp add: loadobj_def example_lookup_workflow) (simp add: checkpoint_file_def path_defs)

theorem resume_fails_at_first_missing_checkpoint_witness:
  "fst (setup_fn True (example_world Resume [''y''])) =
     Inr (\<lparr>run = Some Resume, workdir = ''/home/u/run'', parameter_file = ''parameters.yaml''\<rparr>,
          example_paths, example_sanitized) \<and>
   fst (unix_cd ''/home/u/run'' (snd (setup_fn True (example_world Resume [''y''])))) = Inr () \<and>
   loadobj (checkpoint_file ''/home/u/run'' ''system'') (resume_start (example_world Resume [''y''])) =
     Inr (Instance ''system state'' True) \<and>
   fs_lookup (resume_start (example_world Resume [''y''])) (checkpoint_file ''/home/u/run'' ''workflow'') = None \<and>
   fst (resume [''system'', ''workflow''] (example_world Resume [''y''])) =
     Inl (CheckpointMissing (checkpoint_file ''/home/u/run'' ''workflow'')) \<and>
   map_of (modules (snd (resume [''system'', ''workflow''] (example_world Resume [''y''])))) (registry_name ''system'') =
     Some (Instance ''system state'' True) \<and>
   map_of (modules (snd (resume [''system'', ''workflow''] (example_world Resume [''y''])))) (registry_name ''workflow'') =
     None \<and>
   map_of (modules (snd (resume [''system'', ''workflow''] (example_world Resume [''y''])))) ''seisflows_paths'' =
     Some (PathObj example_paths)"
proof -
  define a where "a = \<lparr>run = Some Resume, workdir = ''/home/u/run'', parameter_file = ''parameters.yaml''\<rparr>"
  define W where "W = example_world Resume [''y'']"
  have wd: "workdir a = ''/home/u/run''" by (simp add: a_def)
  have h1: "fst (setup_fn True W) = Inr (a, example_paths, example_sanitized)"
    by (simp add: W_def a_def example_setup)
  have h2: "fst (unix_cd (workdir a) (snd (setup_fn True W))) = Inr ()"
    by (simp add: wd W_def example_setup example_cd)
  have l: "loadobj (checkpoint_file ''/home/u/run'' ''system'') (resume_start W) =
      Inr (Instance ''system state'' True)"
    by (simp add: W_def example_resume_start example_loadobj_system)
  have h3: "\<forall>n \<in> set [''system'']. \<exists>obj. loadobj (checkpoint_file (workdir a) n) (resume_start W) = Inr obj"
    by (simp add: wd l)
  have h4: "fs_lookup (resume_start W) (checkpoint_file (workdir a) ''workflow'') = None"
    by (simp add: wd W_def example_resume_start example_lookup_workflow)
  note t = resume_fails_at_first_missing_checkpoint [OF h1 h2 h3 h4, of "[]"]
  have c1: "fst (resume [''system'', ''workflow''] W) =
      Inl (CheckpointMissing (checkpoint_file ''/home/u/run'' ''workflow''))"
    using t by (simp add: wd)
  have c2: "map_of (modules (snd (resume [''system'', ''workflow''] W))) (registry_name ''system'') =
      Some (Instance ''system state'' True)"
    using t l by (simp add: wd)
  have other: "\<And>k. k \<noteq> registry_name ''system'' \<Longrightarrow>
      map_of (modules (snd (resume [''system'', ''workflow''] W))) k =
      ((map_of (modules W))(''seisflows_parameters'' \<mapsto> ParObj example_sanitized,
                            ''seisflows_paths'' \<mapsto> PathObj example_paths)) k"
    using t by simp
  have c3: "map_of (modules (snd (resume [''system'', ''workflow''] W))) (registry_name ''workflow'') = None"
    by (subst other) (simp_all add: registry_name_def W_def example_world_def)
  have c4: "map_of (modules (snd (resume [''system'', ''workflow''] W))) ''seisflows_paths'' =
      Some (PathObj example_paths)"
    by (subst other) (simp_all add: registry_name_def)
  show ?thesis
    using h1 h2 l h4 c1 c2 c3 c4 unfolding W_def a_def by simp
qed

text \<open>
  The claim C1 as first stated fails: with the checkpoint of \<^verbatim>\<open>system\<close> present and
  that of \<^verbatim>\<open>workflow\<close> missing, \<^verbatim>\<open>resume\<close> fails with \<^verbatim>\<open>CheckpointMissing\<close>,
  and the registry entry of \<^verbatim>\<open>system\<close>, absent before, has been set by this resume.
\<close>

theorem resume_partial_registry_counterexample:
  "fst (resume [''system'', ''workflow''] (example_world Resume [''y''])) =
     Inl (CheckpointMissing ''/home/u/run/output/seisflows_workflow.p'') \<and>
   map_of (modules (example_world Resume [''y''])) ''seisflows_system'' = None \<and>
   map_of (modules (snd (resume [''system'', ''workflow''] (example_world Resume [''y''])))) ''seisflows_system'' =
     Some (Instance ''system state'' True)"
  by (simp add: resume_def example_setup example_cd example_loadobj_system example_loadobj_workflow)
     (simp add: example_after_setup_def example_world_def set_module_def registry_name_def)

subsection \<open>Clean\<close>

lemma split_sep_nonempty [simp]: "split_sep xs \<noteq> []"
  by (induction xs) (auto split: list.splits)





lemma path_join_nonempty: "plain name \<Longrightarrow> path_join wd [name] \<noteq> []"
  by (auto simp: path_join_def join_step_def plain_def)

subsubsection \<open>Resolution of a name in a directory\<close>





subsubsection \<open>Resolution after a removal\<close>



lemma is_under_refl [simp]: "is_under d d"
  by (simp add: is_under_def)







lemma unix_rm_cwd [simp]: "cwd (unix_rm p w) = cwd w"
  by (simp add: unix_rm_def split: option.splits)




subsubsection \<open>The entries of a directory\<close>










lemma plain_names [simp]: "plain ''scratch''" "plain ''output''" "plain ''mylog.txt''"
  "plain ''parameters.yaml''"
  by (simp_all add: plain_def sep_def)


subsubsection \<open>The three removals\<close>








end
